theory Spec2Isabelle
  imports Complex_Main
begin

section \<open>World Hex Miner: zone classification, coastal buffer and mining ownership\<close>

text \<open>
  A shallow embedding of the server of the world-hex-miner repository (the TypeScript
  server with user accounts: \<^verbatim>\<open>buildGlobalOwnedHexesSet\<close>, \<^verbatim>\<open>markCoastAndBuffer\<close>,
  \<^verbatim>\<open>inferZoneTypeFromOverpass\<close>, \<^verbatim>\<open>inferZoneTypeAtCentroid\<close> and the request handlers).

  Modelling decisions, each read off the source:
  \<^item> The module-level variables (\<^verbatim>\<open>usersById\<close>, \<^verbatim>\<open>hexCache\<close>, \<^verbatim>\<open>coastBufferHexes\<close>,
    \<^verbatim>\<open>treasury\<close>, \<^verbatim>\<open>miningEvents\<close>, \<^verbatim>\<open>trades\<close>) and the JSON files behind them are the
    fields of one record \<open>state\<close>; every handler takes the state and returns the response
    with the new state.
  \<^item> Everything the server gets from outside (the clock, the file system accepting a write,
    the h3-js grid library, the Overpass service, random identifiers, password hashing) is a
    field of the record \<open>env\<close>. A library call that can throw returns an \<open>option\<close>.
  \<^item> A JavaScript \<^verbatim>\<open>number\<close> that the server computes with (a balance, the treasury, a fee)
    is a \<open>JsNum\<close>: a finite value, an infinity or NaN, and every sum, difference and product
    is rounded to the nearest IEEE 754 double, ties to even, as the server's arithmetic is.
    A number that is only compared or stored (a timestamp, a coordinate) is a \<open>real\<close>.
  \<^item> A handler runs from request to response without interleaving with another request.
\<close>

subsection \<open>Zone categories and classification results\<close>

datatype ZoneType =
    SEA | MAIN_ROAD | URBAN | INTERURBAN | MILITARY | HOSPITAL
  | CLIFF | COAST | NATURE_RESERVE | RIVER | PRISON | GOVERNMENT

text \<open>\<^verbatim>\<open>HexCacheEntry\<close> has the fields \<^verbatim>\<open>zoneType\<close> and \<^verbatim>\<open>debug\<close>; \<^verbatim>\<open>InferredZone\<close> has the
  same two and \<^verbatim>\<open>hasRoad\<close>, \<^verbatim>\<open>roadClass\<close>.\<close>

record HexCacheEntry =
  zoneType :: ZoneType
  debug :: "string list"

record InferredZone = HexCacheEntry +
  hasRoad :: bool
  roadClass :: "string option"

text \<open>An Overpass element: its \<^verbatim>\<open>type\<close> and its optional \<^verbatim>\<open>tags\<close> object.\<close>

record OverpassElement =
  el_type :: string
  el_tags :: "(string \<rightharpoonup> string) option"

text \<open>\<^verbatim>\<open>el.tags ?? {}\<close>\<close>

definition tagsOf :: "OverpassElement \<Rightarrow> (string \<rightharpoonup> string)" where
  "tagsOf el = (case el_tags el of None \<Rightarrow> Map.empty | Some t \<Rightarrow> t)"

text \<open>JavaScript truthiness of a property that is a string or missing.\<close>

definition truthy :: "string option \<Rightarrow> bool" where
  "truthy v = (case v of None \<Rightarrow> False | Some s \<Rightarrow> s \<noteq> [])"

subsection \<open>The flags of the scan\<close>

text \<open>The local variables of the two classifiers. The centroid classifier declares neither
  \<^verbatim>\<open>hasCoast\<close> nor \<^verbatim>\<open>hasCliff\<close>: its scan leaves the two fields alone and its
  resolution does not read them. The locals \<^verbatim>\<open>hasRoad\<close> and \<^verbatim>\<open>roadClass\<close> are the fields
  \<open>seenRoad\<close> and \<open>bestRoadClass\<close> (the names \<open>hasRoad\<close> and \<open>roadClass\<close> are the fields of
  the result).\<close>

record ScanFlags =
  hasMainRoad :: bool
  hasSea :: bool
  hasNature :: bool
  hasUrban :: bool
  hasMilitary :: bool
  hasHospital :: bool
  hasPrisonOrGovernment :: bool
  hasCoast :: bool
  hasCliff :: bool
  seenRoad :: bool
  bestRoadClass :: "string option"

definition initialFlags :: ScanFlags where
  "initialFlags = \<lparr> hasMainRoad = False, hasSea = False, hasNature = False, hasUrban = False,
     hasMilitary = False, hasHospital = False, hasPrisonOrGovernment = False,
     hasCoast = False, hasCliff = False, seenRoad = False, bestRoadClass = None \<rparr>"

text \<open>The conditions of the scan, one per \<^verbatim>\<open>if\<close> of the loop body.\<close>

definition tagMilitary :: "(string \<rightharpoonup> string) \<Rightarrow> bool" where
  "tagMilitary tags = (tags ''landuse'' = Some ''military'' \<or> truthy (tags ''military''))"

definition tagHospital :: "(string \<rightharpoonup> string) \<Rightarrow> bool" where
  "tagHospital tags = (tags ''amenity'' = Some ''hospital'')"

definition tagPrisonOrGovernment :: "(string \<rightharpoonup> string) \<Rightarrow> bool" where
  "tagPrisonOrGovernment tags =
     (tags ''amenity'' = Some ''prison'' \<or> tags ''building'' = Some ''government'')"

definition tagHighway :: "(string \<rightharpoonup> string) \<Rightarrow> bool" where
  "tagHighway tags = truthy (tags ''highway'')"

definition tagSea :: "(string \<rightharpoonup> string) \<Rightarrow> bool" where
  "tagSea tags = (tags ''natural'' = Some ''sea'' \<or> tags ''natural'' = Some ''water''
     \<or> tags ''place'' = Some ''sea'' \<or> truthy (tags ''water''))"

definition tagCoast :: "(string \<rightharpoonup> string) \<Rightarrow> bool" where
  "tagCoast tags = (tags ''natural'' = Some ''coastline'' \<or> tags ''natural'' = Some ''beach''
     \<or> tags ''leisure'' = Some ''beach'')"

definition tagCliff :: "(string \<rightharpoonup> string) \<Rightarrow> bool" where
  "tagCliff tags = (tags ''natural'' = Some ''cliff'')"

definition tagNature :: "(string \<rightharpoonup> string) \<Rightarrow> bool" where
  "tagNature tags = (tags ''leisure'' = Some ''park'' \<or> tags ''landuse'' = Some ''forest''
     \<or> tags ''natural'' = Some ''wood'')"

definition tagUrban :: "(string \<rightharpoonup> string) \<Rightarrow> bool" where
  "tagUrban tags = (truthy (tags ''building'')
     \<or> tags ''landuse'' = Some ''residential''
     \<or> tags ''landuse'' = Some ''commercial''
     \<or> tags ''landuse'' = Some ''industrial''
     \<or> tags ''place'' = Some ''city''
     \<or> tags ''place'' = Some ''town''
     \<or> tags ''place'' = Some ''village'')"

text \<open>The table \<^verbatim>\<open>roadPriority\<close>. A key that is not in the table reads as \<^verbatim>\<open>?? 0\<close> below.
  (For a key inherited from the prototype of the object literal, such as
  \<^verbatim>\<open>constructor\<close>, JavaScript compares a non-number, and \<^verbatim>\<open>next > current\<close> is false as it
  is for 0.)\<close>

definition roadPriority :: "string \<Rightarrow> nat option" where
  "roadPriority k =
     (if k = ''motorway'' then Some 4
      else if k = ''trunk'' then Some 3
      else if k = ''primary'' then Some 2
      else if k = ''secondary'' then Some 1
      else None)"

definition mainRoads :: "string set" where
  "mainRoads = {''motorway'', ''trunk''}"

text \<open>The body of \<^verbatim>\<open>if (tags.highway) { ... }\<close>, the same text in both classifiers.\<close>

definition scanHighway :: "string \<Rightarrow> ScanFlags \<Rightarrow> ScanFlags" where
  "scanHighway highway f =
     (let f1 = f\<lparr>seenRoad := True\<rparr>;
          current = (case bestRoadClass f1 of
                       None \<Rightarrow> 0
                     | Some rc \<Rightarrow> if rc = [] then 0
                                 else (case roadPriority rc of None \<Rightarrow> 0 | Some p \<Rightarrow> p));
          next = (case roadPriority highway of None \<Rightarrow> 0 | Some p \<Rightarrow> p);
          f2 = (if next > current then f1\<lparr>bestRoadClass := Some highway\<rparr> else f1)
      in if highway \<in> mainRoads then f2\<lparr>hasMainRoad := True\<rparr> else f2)"

text \<open>One iteration of the loop of \<^verbatim>\<open>inferZoneTypeFromOverpass\<close>.\<close>

definition scanElementArea :: "ScanFlags \<Rightarrow> OverpassElement \<Rightarrow> ScanFlags" where
  "scanElementArea f0 el =
     (let tags = tagsOf el;
          f1 = (if tagMilitary tags then f0\<lparr>hasMilitary := True\<rparr> else f0);
          f2 = (if tagHospital tags then f1\<lparr>hasHospital := True\<rparr> else f1);
          f3 = (if tagPrisonOrGovernment tags then f2\<lparr>hasPrisonOrGovernment := True\<rparr> else f2);
          f4 = (if tagHighway tags then scanHighway (the (tags ''highway'')) f3 else f3);
          f5 = (if tagSea tags then f4\<lparr>hasSea := True\<rparr> else f4);
          f6 = (if tagCoast tags then f5\<lparr>hasCoast := True\<rparr> else f5);
          f7 = (if tagCliff tags then f6\<lparr>hasCliff := True\<rparr> else f6);
          f8 = (if tagNature tags then f7\<lparr>hasNature := True\<rparr> else f7)
      in if tagUrban tags then f8\<lparr>hasUrban := True\<rparr> else f8)"

text \<open>One iteration of the loop of \<^verbatim>\<open>inferZoneTypeAtCentroid\<close>.\<close>

definition scanElementCentroid :: "ScanFlags \<Rightarrow> OverpassElement \<Rightarrow> ScanFlags" where
  "scanElementCentroid f0 el =
     (let tags = tagsOf el;
          f1 = (if tagMilitary tags then f0\<lparr>hasMilitary := True\<rparr> else f0);
          f2 = (if tagHospital tags then f1\<lparr>hasHospital := True\<rparr> else f1);
          f3 = (if tagPrisonOrGovernment tags then f2\<lparr>hasPrisonOrGovernment := True\<rparr> else f2);
          f4 = (if tagHighway tags then scanHighway (the (tags ''highway'')) f3 else f3);
          f5 = (if tagSea tags then f4\<lparr>hasSea := True\<rparr> else f4);
          f6 = (if tagNature tags then f5\<lparr>hasNature := True\<rparr> else f5)
      in if tagUrban tags then f6\<lparr>hasUrban := True\<rparr> else f6)"

text \<open>\<^verbatim>\<open>for (const el of elements) { ... }\<close>\<close>

definition scanArea :: "OverpassElement list \<Rightarrow> ScanFlags" where
  "scanArea elements = foldl scanElementArea initialFlags elements"

definition scanCentroid :: "OverpassElement list \<Rightarrow> ScanFlags" where
  "scanCentroid elements = foldl scanElementCentroid initialFlags elements"

subsection \<open>The outside world\<close>

text \<open>The two Overpass queries. The query text is built from the geometry of the cell
  (its bounding box, or a circle of 60 metres around its centre), so the cell and the
  variant identify it.\<close>

datatype OverpassQuery = AreaQuery string | CentroidQuery string

text \<open>What one \<^verbatim>\<open>fetch\<close> call does: it throws (a network error, with its message), or
  returns a response with a status and a body that parses as JSON (with or without an
  \<^verbatim>\<open>elements\<close> field) or does not parse.\<close>

datatype ResponseBody = InvalidJson string | JsonData "OverpassElement list option"

datatype FetchResult = FetchThrows string | Response nat ResponseBody

record env =
  dateNow :: real
  fsWritable :: "string \<Rightarrow> bool"
  h3_gridDisk :: "string \<Rightarrow> nat \<Rightarrow> string list option"
  h3_gridPathCells :: "string \<Rightarrow> string \<Rightarrow> string list option"
  h3_cellToLatLng :: "string \<Rightarrow> (real \<times> real) option"
  h3_cellToBoundary :: "string \<Rightarrow> (real \<times> real) list option"
  h3_latLngToCell :: "real \<Rightarrow> real \<Rightarrow> nat \<Rightarrow> string option"
  h3_errorMessage :: string
  fetch :: "string \<Rightarrow> OverpassQuery \<Rightarrow> nat \<Rightarrow> FetchResult"
  randomUUID :: string
  bcryptHash :: "string \<Rightarrow> string"
  str_trim :: "string \<Rightarrow> string"
  str_toLowerCase :: "string \<Rightarrow> string"
  randomSuffix :: string

text \<open>The third argument of \<open>fetch\<close> is the number of the attempt: the same endpoint may
  answer differently when it is asked again.\<close>

subsection \<open>JavaScript numbers\<close>

text \<open>A \<^verbatim>\<open>number\<close> is an IEEE 754 double: a finite value, one of the two infinities, or
  NaN. (The two zeros are one value here: they compare equal, and the server never divides
  by a balance.)\<close>

datatype JsNum = Fin real | PosInfinity | NegInfinity | NaN

text \<open>Rounding a real to the nearest double, ties to even. A double is a multiple of
  \<open>2^e\<close> with a significand below \<open>2^53\<close>; \<open>ulpExponent x\<close> is that \<open>e\<close> for the binade
  of \<open>x\<close> (\<open>-1074\<close> for the subnormal range).\<close>

definition ulpExponent :: "real \<Rightarrow> int" where
  "ulpExponent x = (if \<bar>x\<bar> < 2 powr (- 1022) then - 1074 else \<lfloor>log 2 \<bar>x\<bar>\<rfloor> - 52)"

definition roundHalfEven :: "real \<Rightarrow> int" where
  "roundHalfEven q =
     (let f = \<lfloor>q\<rfloor>; d = q - of_int f
      in if d < 1 / 2 then f else if 1 / 2 < d then f + 1 else if even f then f else f + 1)"

definition toDouble :: "real \<Rightarrow> real" where
  "toDouble x =
     of_int (roundHalfEven (x / 2 powr of_int (ulpExponent x))) * 2 powr of_int (ulpExponent x)"

text \<open>The result of an operation whose exact value is \<open>x\<close>: it overflows to an infinity
  when the rounded value reaches \<open>2^1024\<close>.\<close>

definition fromReal :: "real \<Rightarrow> JsNum" where
  "fromReal x =
     (let d = toDouble x
      in if 2 ^ 1024 \<le> d then PosInfinity
         else if d \<le> - (2 ^ 1024) then NegInfinity
         else Fin d)"

text \<open>The operators \<^verbatim>\<open>+\<close>, unary \<^verbatim>\<open>-\<close>, binary \<^verbatim>\<open>-\<close>, \<^verbatim>\<open>*\<close>, \<^verbatim>\<open><\<close> and \<^verbatim>\<open>Math.floor\<close>.\<close>

fun jsAdd :: "JsNum \<Rightarrow> JsNum \<Rightarrow> JsNum" where
  "jsAdd NaN b = NaN"
| "jsAdd a NaN = NaN"
| "jsAdd (Fin x) (Fin y) = fromReal (x + y)"
| "jsAdd PosInfinity NegInfinity = NaN"
| "jsAdd NegInfinity PosInfinity = NaN"
| "jsAdd PosInfinity b = PosInfinity"
| "jsAdd a PosInfinity = PosInfinity"
| "jsAdd NegInfinity b = NegInfinity"
| "jsAdd a NegInfinity = NegInfinity"

fun jsNeg :: "JsNum \<Rightarrow> JsNum" where
  "jsNeg (Fin x) = Fin (- x)"
| "jsNeg PosInfinity = NegInfinity"
| "jsNeg NegInfinity = PosInfinity"
| "jsNeg NaN = NaN"

definition jsSub :: "JsNum \<Rightarrow> JsNum \<Rightarrow> JsNum" where
  "jsSub a b = jsAdd a (jsNeg b)"

definition signedInfinity :: "bool \<Rightarrow> JsNum" where
  "signedInfinity positive = (if positive then PosInfinity else NegInfinity)"

fun jsMul :: "JsNum \<Rightarrow> JsNum \<Rightarrow> JsNum" where
  "jsMul NaN b = NaN"
| "jsMul a NaN = NaN"
| "jsMul (Fin x) (Fin y) = fromReal (x * y)"
| "jsMul (Fin x) PosInfinity = (if x = 0 then NaN else signedInfinity (0 < x))"
| "jsMul (Fin x) NegInfinity = (if x = 0 then NaN else signedInfinity (x < 0))"
| "jsMul PosInfinity (Fin y) = (if y = 0 then NaN else signedInfinity (0 < y))"
| "jsMul NegInfinity (Fin y) = (if y = 0 then NaN else signedInfinity (y < 0))"
| "jsMul PosInfinity PosInfinity = PosInfinity"
| "jsMul PosInfinity NegInfinity = NegInfinity"
| "jsMul NegInfinity PosInfinity = NegInfinity"
| "jsMul NegInfinity NegInfinity = PosInfinity"

fun jsLess :: "JsNum \<Rightarrow> JsNum \<Rightarrow> bool" where
  "jsLess NaN b = False"
| "jsLess a NaN = False"
| "jsLess (Fin x) (Fin y) = (x < y)"
| "jsLess (Fin x) PosInfinity = True"
| "jsLess (Fin x) NegInfinity = False"
| "jsLess PosInfinity b = False"
| "jsLess NegInfinity NegInfinity = False"
| "jsLess NegInfinity b = True"

fun jsFloor :: "JsNum \<Rightarrow> JsNum" where
  "jsFloor (Fin x) = Fin (of_int \<lfloor>x\<rfloor>)"
| "jsFloor a = a"

text \<open>The literal \<^verbatim>\<open>0.1\<close>: the double nearest to one tenth.\<close>

definition tenth :: real where
  "tenth = 3602879701896397 / 36028797018963968"

subsection \<open>Server state\<close>

record User =
  uid :: string
  email :: string
  passwordHash :: string
  balance :: JsNum
  usdtBalance :: JsNum
  ownedHexes :: "string set"

record MiningEvent =
  ev_timestamp :: real
  ev_userId :: string
  ev_h3Index :: string

datatype Side = BUY | SELL

record Trade =
  trade_id :: string
  trade_side :: Side
  trade_price :: real
  trade_amount :: real
  trade_timestamp :: real

text \<open>\<^verbatim>\<open>usersById\<close> is a JavaScript \<^verbatim>\<open>Map\<close>: an association list in insertion order, its
  keys distinct. The fields ending in \<open>File\<close> are the contents of the JSON files
  (\<open>None\<close>: the file does not exist).\<close>

record state =
  usersById :: "(string \<times> User) list"
  hexCache :: "string \<rightharpoonup> HexCacheEntry"
  coastBufferHexes :: "string set"
  treasury :: JsNum
  miningEvents :: "MiningEvent list"
  trades :: "Trade list"
  usersFile :: "(string \<times> User) list option"
  hexCacheFile :: "(string \<rightharpoonup> HexCacheEntry) option"
  coastBufferFile :: "string set option"
  treasuryFile :: "JsNum option"
  miningEventsFile :: "MiningEvent list option"
  tradesFile :: "Trade list option"

definition DEFAULT_START_HEX :: string where
  "DEFAULT_START_HEX = ''8b3f4dc1e26dfff''"

definition SPAWN_COST_GHX :: JsNum where "SPAWN_COST_GHX = Fin 5"
definition DRIVE_COST_GHX :: JsNum where "DRIVE_COST_GHX = Fin 5"
definition DRIVE_DISK_K :: nat where "DRIVE_DISK_K = 3"
definition GPS_MINE_ACCURACY_THRESHOLD_M :: real where "GPS_MINE_ACCURACY_THRESHOLD_M = 35"
definition GPS_MINE_MAX_AGE_MS :: real where "GPS_MINE_MAX_AGE_MS = 15000"

text \<open>The save functions: \<^verbatim>\<open>try { fs.writeFileSync(path, ...) } catch { }\<close>. A write that
  fails is swallowed and leaves the file as it was.\<close>

definition saveUsers :: "env \<Rightarrow> state \<Rightarrow> state" where
  "saveUsers e s = (if fsWritable e ''users.json'' then s\<lparr>usersFile := Some (usersById s)\<rparr> else s)"

definition saveHexCache :: "env \<Rightarrow> state \<Rightarrow> state" where
  "saveHexCache e s =
     (if fsWritable e ''hexCache.json'' then s\<lparr>hexCacheFile := Some (hexCache s)\<rparr> else s)"

definition saveCoastBuffer :: "env \<Rightarrow> state \<Rightarrow> state" where
  "saveCoastBuffer e s =
     (if fsWritable e ''coastBuffer.json''
      then s\<lparr>coastBufferFile := Some (coastBufferHexes s)\<rparr> else s)"

definition saveTreasury :: "env \<Rightarrow> state \<Rightarrow> state" where
  "saveTreasury e s =
     (if fsWritable e ''treasury.json'' then s\<lparr>treasuryFile := Some (treasury s)\<rparr> else s)"

definition saveMiningEvents :: "env \<Rightarrow> state \<Rightarrow> state" where
  "saveMiningEvents e s =
     (if fsWritable e ''miningEvents.json''
      then s\<lparr>miningEventsFile := Some (miningEvents s)\<rparr> else s)"

definition saveTrades :: "env \<Rightarrow> state \<Rightarrow> state" where
  "saveTrades e s =
     (if fsWritable e ''marketTrades.json'' then s\<lparr>tradesFile := Some (trades s)\<rparr> else s)"

text \<open>\<^verbatim>\<open>buildGlobalOwnedHexesSet\<close>: the union of the owned sets of all users.\<close>

definition buildGlobalOwnedHexesSet :: "state \<Rightarrow> string set" where
  "buildGlobalOwnedHexesSet s =
     foldl (\<lambda>all (k, u). all \<union> ownedHexes u) {} (usersById s)"

subsection \<open>Coastal buffer\<close>

text \<open>The loop of \<^verbatim>\<open>markCoastAndBuffer\<close>: the set and the flag \<^verbatim>\<open>changed\<close>.\<close>

definition markStep :: "string set \<times> bool \<Rightarrow> string \<Rightarrow> string set \<times> bool" where
  "markStep acc idx =
     (case acc of (hexes, changed) \<Rightarrow>
        if idx \<notin> hexes then (insert idx hexes, True) else (hexes, changed))"

definition markCoastAndBuffer :: "env \<Rightarrow> string \<Rightarrow> state \<Rightarrow> state" where
  "markCoastAndBuffer e h3Index s =
     (let COAST_BUFFER_K = 4 in
      case h3_gridDisk e h3Index COAST_BUFFER_K of
        None \<Rightarrow> s
      | Some disk \<Rightarrow>
          (case foldl markStep (coastBufferHexes s, False) disk of
             (hexes, changed) \<Rightarrow>
               let s1 = s\<lparr>coastBufferHexes := hexes\<rparr>
               in if changed then saveCoastBuffer e s1 else s1))"

text \<open>\<^verbatim>\<open>applyCoastBufferFromCache\<close>: the read-only widening for display. It reads the
  cache and writes nothing.\<close>

definition nonOverridable :: "ZoneType set" where
  "nonOverridable = {MILITARY, PRISON, HOSPITAL, MAIN_ROAD, CLIFF}"

definition cachedCoast :: "state \<Rightarrow> string \<Rightarrow> bool" where
  "cachedCoast s idx = (case hexCache s idx of None \<Rightarrow> False | Some en \<Rightarrow> zoneType en = COAST)"

definition applyCoastBufferFromCache ::
  "env \<Rightarrow> state \<Rightarrow> string \<Rightarrow> 'a HexCacheEntry_scheme \<Rightarrow> 'a HexCacheEntry_scheme" where
  "applyCoastBufferFromCache e s h3Index base =
     (let COAST_BUFFER_K = 3 in
      if zoneType base \<in> nonOverridable then base
      else case h3_gridDisk e h3Index COAST_BUFFER_K of
             None \<Rightarrow> base
           | Some disk \<Rightarrow>
               if list_ex (cachedCoast s) disk
               then base\<lparr>zoneType := COAST,
                      debug := debug base @ [''Coast buffer: within 3 hexes of cached coastline'']\<rparr>
               else base)"

text \<open>\<^verbatim>\<open>collectTreasuryFee\<close>: nothing happens for an amount that is not finite or not
  positive.\<close>

definition collectTreasuryFee :: "env \<Rightarrow> JsNum \<Rightarrow> state \<Rightarrow> state" where
  "collectTreasuryFee e amount s =
     (case amount of
        Fin a \<Rightarrow>
          if a \<le> 0 then s
          else saveTreasury e (s\<lparr>treasury := jsAdd (treasury s) amount\<rparr>)
      | _ \<Rightarrow> s)"

text \<open>\<^verbatim>\<open>fallbackZoneType\<close>; \<^verbatim>\<open>h3.cellToLatLng\<close> throws on a cell it cannot decode.\<close>

definition fallbackZoneType :: "env \<Rightarrow> string \<Rightarrow> ZoneType option" where
  "fallbackZoneType e h3Index =
     (case h3_cellToLatLng e h3Index of
        None \<Rightarrow> None
      | Some (lat, lng) \<Rightarrow> if lat > 73 \<or> lat < - 73 then Some SEA else Some INTERURBAN)"

subsection \<open>The Overpass client\<close>

definition OVERPASS_ENDPOINTS :: "string list" where
  "OVERPASS_ENDPOINTS =
     [''https://overpass-api.de/api/interpreter'',
      ''https://overpass.kumi.systems/api/interpreter'',
      ''https://overpass.nchc.org.tw/api/interpreter'']"

definition maxAttempts :: nat where "maxAttempts = 4"

text \<open>A thrown error, with its message.\<close>

datatype Error = Error string

fun messageOf :: "Error \<Rightarrow> string" where
  "messageOf (Error m) = m"

text \<open>Decimal digits of a number, for \<^verbatim>\<open>`Overpass error: ${response.status}`\<close>.\<close>

fun string_of_nat :: "nat \<Rightarrow> string" where
  "string_of_nat n =
     (if n < 10 then [char_of (48 + n)]
      else string_of_nat (n div 10) @ [char_of (48 + n mod 10)])"

declare string_of_nat.simps [simp del]

text \<open>The retry loop of \<^verbatim>\<open>overpassFetch\<close>, from attempt \<open>attempt\<close> on. A thrown error (a
  network error, a body that does not parse, or the error the loop throws itself for a
  status that is neither a success nor 429 nor 5xx) goes to the \<^verbatim>\<open>catch\<close>, which retries
  unless this was the last attempt. The delays of \<^verbatim>\<open>sleep\<close> change no state.\<close>

function overpassFetchFrom :: "env \<Rightarrow> OverpassQuery \<Rightarrow> nat \<Rightarrow> Error + OverpassElement list" where
  "overpassFetchFrom e query attempt =
     (if attempt < maxAttempts then
        (let endpoint = OVERPASS_ENDPOINTS ! (attempt mod length OVERPASS_ENDPOINTS);
             catch = (\<lambda>err. if attempt < maxAttempts - 1
                             then overpassFetchFrom e query (attempt + 1) else Inl err)
         in case fetch e endpoint query attempt of
              FetchThrows m \<Rightarrow> catch (Error m)
            | Response status body \<Rightarrow>
                if 200 \<le> status \<and> status \<le> 299 then
                  (case body of
                     InvalidJson m \<Rightarrow> catch (Error m)
                   | JsonData d \<Rightarrow> Inr (case d of None \<Rightarrow> [] | Some els \<Rightarrow> els))
                else if status = 429 \<or> (500 \<le> status \<and> status \<le> 599)
                then overpassFetchFrom e query (attempt + 1)
                else catch (Error (''Overpass error: '' @ string_of_nat status)))
      else Inl (Error ''Overpass error: exhausted retries''))"
  by pat_completeness auto
termination
  by (relation "measure (\<lambda>(e, query, attempt). maxAttempts - attempt)") auto

declare overpassFetchFrom.simps [simp del]

definition overpassFetch :: "env \<Rightarrow> OverpassQuery \<Rightarrow> Error + OverpassElement list" where
  "overpassFetch e query = overpassFetchFrom e query 0"

subsection \<open>The two classifiers\<close>

text \<open>The part of \<^verbatim>\<open>inferZoneTypeFromOverpass\<close> after \<^verbatim>\<open>await overpassFetch\<close>: the scan and
  the priority cascade. Only the COAST branch touches the state.\<close>

definition classifyAreaElements ::
  "env \<Rightarrow> string \<Rightarrow> OverpassElement list \<Rightarrow> state \<Rightarrow> InferredZone \<times> state" where
  "classifyAreaElements e h3Index elements s =
     (let f = scanArea elements;
          result = (\<lambda>z d. \<lparr>zoneType = z, debug = [d],
                            hasRoad = seenRoad f, roadClass = bestRoadClass f\<rparr>)
      in if hasMilitary f \<or> hasPrisonOrGovernment f then
           (if hasMilitary f then (result MILITARY ''OSM: military tag detected'', s)
            else (result PRISON ''OSM: prison/government tag detected'', s))
         else if hasHospital f then (result HOSPITAL ''OSM: hospital tag detected'', s)
         else if hasMainRoad f then
           (result MAIN_ROAD ''OSM: main road detected (motorway/trunk)'', s)
         else if hasCliff f then (result CLIFF ''OSM: cliff tag detected'', s)
         else if hasCoast f then
           (let s1 = markCoastAndBuffer e h3Index s
            in (result COAST ''OSM: coastline/beach tag detected'', s1))
         else if hasUrban f then (result URBAN ''OSM: urban fabric tag detected'', s)
         else if hasSea f then (result SEA ''OSM: water/sea tag detected'', s)
         else if hasNature f then
           (result NATURE_RESERVE ''OSM: park / forest / wood detected'', s)
         else (result INTERURBAN
                 ''OSM: no matching tags found, defaulting to INTERURBAN (global fallback)'', s))"

definition inferZoneTypeFromOverpass ::
  "env \<Rightarrow> string \<Rightarrow> state \<Rightarrow> (Error + InferredZone) \<times> state" where
  "inferZoneTypeFromOverpass e h3Index s =
     (case h3_cellToBoundary e h3Index of
        None \<Rightarrow> (Inl (Error (h3_errorMessage e)), s)
      | Some boundary \<Rightarrow>
          (case overpassFetch e (AreaQuery h3Index) of
             Inl err \<Rightarrow> (Inl err, s)
           | Inr elements \<Rightarrow>
               (case classifyAreaElements e h3Index elements s of
                  (inferred, s1) \<Rightarrow> (Inr inferred, s1))))"

text \<open>The part of \<^verbatim>\<open>inferZoneTypeAtCentroid\<close> after the fetch. It reads and writes no state.\<close>

definition classifyCentroidElements :: "OverpassElement list \<Rightarrow> InferredZone" where
  "classifyCentroidElements elements =
     (let f = scanCentroid elements;
          result = (\<lambda>z d. \<lparr>zoneType = z, debug = [d],
                            hasRoad = seenRoad f, roadClass = bestRoadClass f\<rparr>)
      in if hasMilitary f \<or> hasPrisonOrGovernment f then
           (if hasMilitary f then result MILITARY ''Centroid: military tag detected''
            else result PRISON ''Centroid: prison/government tag detected'')
         else if hasHospital f then result HOSPITAL ''Centroid: hospital tag detected''
         else if hasMainRoad f then
           result MAIN_ROAD ''Centroid: main road detected (motorway/trunk)''
         else if hasUrban f then result URBAN ''Centroid: urban fabric tag detected''
         else if hasSea f then result SEA ''Centroid: water/sea tag detected''
         else if hasNature f then
           result NATURE_RESERVE ''Centroid: park / forest / wood detected''
         else result SEA
                ''Centroid: no matching tags found, defaulting to SEA (global fallback)'')"

definition inferZoneTypeAtCentroid :: "env \<Rightarrow> string \<Rightarrow> Error + InferredZone" where
  "inferZoneTypeAtCentroid e h3Index =
     (case h3_cellToLatLng e h3Index of
        None \<Rightarrow> Inl (Error (h3_errorMessage e))
      | Some (lat, lng) \<Rightarrow>
          (case overpassFetch e (CentroidQuery h3Index) of
             Inl err \<Rightarrow> Inl err
           | Inr elements \<Rightarrow> Inr (classifyCentroidElements elements)))"

subsection \<open>Requests and responses\<close>

text \<open>A field of a JSON request body, as far as the checks of the handlers tell values
  apart: missing, a finite number, a number that is not finite, a string, anything else.\<close>

datatype JsValue = JUndefined | JNumber real | JNonFinite | JString string | JOther

record ClaimBody =
  b_h3Index :: JsValue
  b_lat :: JsValue
  b_lon :: JsValue
  b_accuracyM :: JsValue
  b_gpsAt :: JsValue

text \<open>\<^verbatim>\<open>typeof v === 'number' && Number.isFinite(v)\<close>\<close>

definition finiteNumber :: "JsValue \<Rightarrow> real option" where
  "finiteNumber v = (case v of JNumber r \<Rightarrow> Some r | _ \<Rightarrow> None)"

text \<open>\<^verbatim>\<open>v && typeof v === 'string'\<close>\<close>

definition nonEmptyString :: "JsValue \<Rightarrow> string option" where
  "nonEmptyString v = (case v of JString x \<Rightarrow> if x = [] then None else Some x | _ \<Rightarrow> None)"

datatype Reason =
    ALREADY_MINED | OWNED_BY_OTHER | FORBIDDEN_ZONE
  | GPS_REQUIRED | GPS_STALE | GPS_ACCURACY_LOW | GPS_MISMATCH
  | ALREADY_OWNED | INSUFFICIENT_GHX | NO_ROAD_HEXES | SAME_HEX

text \<open>The responses. \<open>StatusError n c\<close> is \<^verbatim>\<open>res.status(n).json({ ok: false, error: c })\<close>;
  \<open>Refused r b o\<close> is \<^verbatim>\<open>res.json({ ok: false, reason: r, balance: b, owned: o })\<close> (\<open>owned\<close>
  is absent from the drive responses); \<open>HexNoZone c\<close> is \<^verbatim>\<open>res.json({ h3Index: c })\<close> with the
  fields \<^verbatim>\<open>zoneType\<close> and \<^verbatim>\<open>debug\<close> undefined; \<open>NoResponse\<close> is a handler that threw.\<close>

datatype Response =
    StatusError nat string
  | Refused Reason JsNum "bool option"
  | MineOk JsNum
  | SpawnOk JsNum JsNum
  | DriveSimulateOk nat JsNum JsNum "string list"
  | DriveStepOk "string list" nat JsNum JsNum JsNum JsNum
  | HexJson string ZoneType "string list" "bool option" "string option"
  | RegisterOk string string JsNum nat
  | ResetOk nat
  | OrderOk Trade JsNum JsNum
  | HexNoZone string
  | NoResponse

text \<open>\<^verbatim>\<open>requireAuth\<close>: the token names a user id, and the user must exist. The handlers
  mutate the user object that the map holds: \<open>updateUser\<close> is that mutation.\<close>

definition requireAuth :: "state \<Rightarrow> string \<Rightarrow> User option" where
  "requireAuth s userId = map_of (usersById s) userId"

definition updateUser :: "string \<Rightarrow> (User \<Rightarrow> User) \<Rightarrow> state \<Rightarrow> state" where
  "updateUser userId f s =
     s\<lparr>usersById := map (\<lambda>(k, u). if k = userId then (k, f u) else (k, u)) (usersById s)\<rparr>"

definition pushMiningEvent :: "env \<Rightarrow> string \<Rightarrow> string \<Rightarrow> state \<Rightarrow> state" where
  "pushMiningEvent e userId h3Index s =
     s\<lparr>miningEvents := miningEvents s @
         [\<lparr>ev_timestamp = dateNow e, ev_userId = userId, ev_h3Index = h3Index\<rparr>]\<rparr>"

subsection \<open>POST /api/mine\<close>

text \<open>The handler reads \<^verbatim>\<open>lat\<close>, \<^verbatim>\<open>lon\<close>, \<^verbatim>\<open>accuracyM\<close> and \<^verbatim>\<open>gpsAt\<close> from the body and
  does not use them (``GPS verification temporarily disabled for testing'').\<close>

definition mine :: "env \<Rightarrow> string \<Rightarrow> ClaimBody \<Rightarrow> state \<Rightarrow> Response \<times> state" where
  "mine e userId body s =
     (case requireAuth s userId of
        None \<Rightarrow> (StatusError 401 ''UNAUTHENTICATED'', s)
      | Some user \<Rightarrow>
          (case nonEmptyString (b_h3Index body) of
             None \<Rightarrow> (StatusError 400 ''INVALID_H3_INDEX'', s)
           | Some h3Index \<Rightarrow>
               if h3Index \<in> ownedHexes user
                 then (Refused ALREADY_MINED (balance user) (Some True), s)
               else if h3Index \<in> buildGlobalOwnedHexesSet s
                 then (Refused OWNED_BY_OTHER (balance user) (Some False), s)
               else if h3Index \<in> coastBufferHexes s
                 then (Refused FORBIDDEN_ZONE (balance user) (Some False), s)
               else
                 (let s1 = updateUser userId
                             (\<lambda>u. u\<lparr>ownedHexes := insert h3Index (ownedHexes u),
                                     balance := jsAdd (balance u) (Fin 1)\<rparr>) s;
                      s2 = pushMiningEvent e (uid user) h3Index s1;
                      s3 = saveMiningEvents e s2;
                      s4 = saveUsers e s3
                  in (MineOk (jsAdd (balance user) (Fin 1)), s4))))"

subsection \<open>POST /api/spawn\<close>

definition spawn :: "env \<Rightarrow> string \<Rightarrow> ClaimBody \<Rightarrow> state \<Rightarrow> Response \<times> state" where
  "spawn e userId body s =
     (case requireAuth s userId of
        None \<Rightarrow> (StatusError 401 ''UNAUTHENTICATED'', s)
      | Some user \<Rightarrow>
          (case nonEmptyString (b_h3Index body) of
             None \<Rightarrow> (StatusError 400 ''INVALID_H3_INDEX'', s)
           | Some h3Index \<Rightarrow>
                 (case (finiteNumber (b_lat body), finiteNumber (b_lon body),
                        finiteNumber (b_accuracyM body), finiteNumber (b_gpsAt body)) of
                    (Some lat, Some lon, Some accuracyM, Some gpsAt) \<Rightarrow>
                      (let now = dateNow e in
                       if jsLess (Fin GPS_MINE_MAX_AGE_MS) (jsSub (Fin now) (Fin gpsAt))
                         then (Refused GPS_STALE (balance user) (Some False), s)
                       else if accuracyM > GPS_MINE_ACCURACY_THRESHOLD_M
                         then (Refused GPS_ACCURACY_LOW (balance user) (Some False), s)
                       else
                         (case h3_latLngToCell e lat lon 11 of
                            None \<Rightarrow> (Refused GPS_REQUIRED (balance user) (Some False), s)
                          | Some gpsHex \<Rightarrow>
                              if gpsHex = [] then (Refused GPS_REQUIRED (balance user) (Some False), s)
                              else if gpsHex \<noteq> h3Index
                                then (Refused GPS_MISMATCH (balance user) (Some False), s)
                              else if h3Index \<in> ownedHexes user
                                then (Refused ALREADY_OWNED (balance user) (Some True), s)
                              else if jsLess (balance user) SPAWN_COST_GHX
                                then (Refused INSUFFICIENT_GHX (balance user) (Some False), s)
                              else
                                (let s1 = updateUser userId
                                            (\<lambda>u. u\<lparr>balance := jsSub (balance u) SPAWN_COST_GHX\<rparr>) s;
                                     s2 = collectTreasuryFee e SPAWN_COST_GHX s1;
                                     s3 = updateUser userId
                                            (\<lambda>u. u\<lparr>ownedHexes := insert h3Index (ownedHexes u)\<rparr>) s2;
                                     s4 = pushMiningEvent e (uid user) h3Index s3;
                                     s5 = saveMiningEvents e s4;
                                     s6 = saveUsers e s5
                                 in (SpawnOk (jsSub (balance user) SPAWN_COST_GHX)
                                       SPAWN_COST_GHX, s6))))
                  | _ \<Rightarrow> (Refused GPS_REQUIRED (balance user) (Some False), s))))"

subsection \<open>Drive mode\<close>

text \<open>\<^verbatim>\<open>inferred.zoneType === 'MAIN_ROAD' || inferred.hasRoad\<close>, and \<^verbatim>\<open>continue\<close> when the
  classifier throws.\<close>

definition isRoadHex :: "env \<Rightarrow> string \<Rightarrow> bool" where
  "isRoadHex e idx =
     (case inferZoneTypeAtCentroid e idx of
        Inl err \<Rightarrow> False
      | Inr inferred \<Rightarrow> zoneType inferred = MAIN_ROAD \<or> hasRoad inferred)"

text \<open>The candidate loop of both drive handlers: skip what the calling user owns, skip
  what is not a road cell, push the rest in order.\<close>

definition collectRoadHexes :: "env \<Rightarrow> User \<Rightarrow> string list \<Rightarrow> string list" where
  "collectRoadHexes e user cells =
     filter (\<lambda>idx. idx \<notin> ownedHexes user \<and> isRoadHex e idx) cells"

text \<open>One iteration of the claim loop of \<^verbatim>\<open>/api/drive/simulate\<close>.\<close>

definition claimSimulated :: "env \<Rightarrow> string \<Rightarrow> string \<Rightarrow> state \<Rightarrow> string \<Rightarrow> state" where
  "claimSimulated e userId userUid s idx =
     pushMiningEvent e userUid idx
       (updateUser userId (\<lambda>u. u\<lparr>ownedHexes := insert idx (ownedHexes u),
                                   balance := jsAdd (balance u) (Fin 1)\<rparr>) s)"

definition driveSimulate :: "env \<Rightarrow> string \<Rightarrow> JsValue \<Rightarrow> state \<Rightarrow> Response \<times> state" where
  "driveSimulate e userId centerField s =
     (case requireAuth s userId of
        None \<Rightarrow> (StatusError 401 ''UNAUTHENTICATED'', s)
      | Some user \<Rightarrow>
          (case nonEmptyString centerField of
             None \<Rightarrow> (StatusError 400 ''INVALID_H3_INDEX'', s)
           | Some centerH3Index \<Rightarrow>
               (case h3_cellToLatLng e centerH3Index of
                  None \<Rightarrow> (StatusError 400 ''INVALID_H3_INDEX'', s)
                | Some latLng \<Rightarrow>
                    if jsLess (balance user) DRIVE_COST_GHX
                      then (Refused INSUFFICIENT_GHX (balance user) None, s)
                    else
                      (case h3_gridDisk e centerH3Index DRIVE_DISK_K of
                         None \<Rightarrow> (NoResponse, s)
                       | Some candidates \<Rightarrow>
                           (let newlyClaimed = collectRoadHexes e user candidates in
                            if length newlyClaimed = 0
                              then (Refused NO_ROAD_HEXES (balance user) None, s)
                            else
                              (let s1 = updateUser userId
                                          (\<lambda>u. u\<lparr>balance := jsSub (balance u) DRIVE_COST_GHX\<rparr>) s;
                                   s2 = collectTreasuryFee e DRIVE_COST_GHX s1;
                                   s3 = foldl (claimSimulated e userId (uid user)) s2 newlyClaimed;
                                   s4 = saveMiningEvents e s3;
                                   s5 = saveUsers e s4
                               in (DriveSimulateOk (length newlyClaimed) DRIVE_COST_GHX
                                     (foldl (\<lambda>b idx. jsAdd b (Fin 1))
                                        (jsSub (balance user) DRIVE_COST_GHX) newlyClaimed)
                                     newlyClaimed, s5)))))))"

text \<open>One iteration of the claim loop of \<^verbatim>\<open>/api/drive/step\<close>.\<close>

definition claimStepped :: "env \<Rightarrow> string \<Rightarrow> string \<Rightarrow> state \<Rightarrow> string \<Rightarrow> state" where
  "claimStepped e userId userUid s idx =
     pushMiningEvent e userUid idx
       (updateUser userId (\<lambda>u. u\<lparr>ownedHexes := insert idx (ownedHexes u)\<rparr>) s)"

text \<open>The list \<^verbatim>\<open>newlyMined\<close> of \<^verbatim>\<open>/api/drive/step\<close>: the road cells of the path, or the
  target cell alone when there are none and the user does not own it.\<close>

definition stepNewlyMined :: "env \<Rightarrow> User \<Rightarrow> string list \<Rightarrow> string \<Rightarrow> string list" where
  "stepNewlyMined e user path toH3 =
     (let newlyMined = collectRoadHexes e user path
      in if length newlyMined = 0 \<and> toH3 \<notin> ownedHexes user
         then newlyMined @ [toH3] else newlyMined)"

definition driveStep ::
  "env \<Rightarrow> string \<Rightarrow> JsValue \<Rightarrow> JsValue \<Rightarrow> state \<Rightarrow> Response \<times> state" where
  "driveStep e userId fromField toField s =
     (case requireAuth s userId of
        None \<Rightarrow> (StatusError 401 ''UNAUTHENTICATED'', s)
      | Some user \<Rightarrow>
          (case (nonEmptyString fromField, nonEmptyString toField) of
             (Some fromH3, Some toH3) \<Rightarrow>
               if fromH3 = toH3 then (Refused SAME_HEX (balance user) None, s)
               else
                 (case (h3_cellToLatLng e fromH3, h3_cellToLatLng e toH3) of
                    (Some a, Some b) \<Rightarrow>
                      (let path = (case h3_gridPathCells e fromH3 toH3 of
                                     None \<Rightarrow> [toH3] | Some cells \<Rightarrow> cells);
                           newlyMined = stepNewlyMined e user path toH3;
                           N = length newlyMined
                       in if N = 0 then (Refused NO_ROAD_HEXES (balance user) None, s)
                          else
                            (let grossReward = Fin (real N);
                                 fee = jsFloor (jsMul (Fin tenth) (Fin (real N)));
                                 netDelta = jsSub grossReward fee;
                                 s1 = updateUser userId
                                        (\<lambda>u. u\<lparr>balance := jsAdd (balance u) netDelta\<rparr>) s;
                                 s2 = collectTreasuryFee e fee s1;
                                 s3 = foldl (claimStepped e userId (uid user)) s2 newlyMined;
                                 s4 = saveMiningEvents e s3;
                                 s5 = saveUsers e s4
                             in (DriveStepOk newlyMined N grossReward fee netDelta
                                   (jsAdd (balance user) netDelta), s5)))
                  | _ \<Rightarrow> (StatusError 400 ''INVALID_H3_INDEX'', s))
           | _ \<Rightarrow> (StatusError 400 ''INVALID_H3_INDEX'', s)))"

subsection \<open>The classification endpoints\<close>

text \<open>\<^verbatim>\<open>hexCache\<close> is a plain object, so \<^verbatim>\<open>hexCache[name]\<close> is truthy not only for a stored
  key but also for a name the object inherits from \<^verbatim>\<open>Object.prototype\<close>.\<close>

definition objectPrototypeNames :: "string set" where
  "objectPrototypeNames =
     {''constructor'', ''__defineGetter__'', ''__defineSetter__'', ''hasOwnProperty'',
      ''__lookupGetter__'', ''__lookupSetter__'', ''isPrototypeOf'', ''propertyIsEnumerable'',
      ''toString'', ''valueOf'', ''__proto__'', ''toLocaleString''}"

text \<open>\<^verbatim>\<open>GET /api/hex/:h3Index\<close>: cache first, then the area classifier; the cache is written
  in the \<^verbatim>\<open>try\<close> branch only. A route parameter is never empty. For an inherited name the
  handler takes the cache-hit branch with an entry that has neither \<^verbatim>\<open>zoneType\<close> nor
  \<^verbatim>\<open>debug\<close>: the widening returns it as it is (its \<^verbatim>\<open>try\<close> swallows the failure to extend an
  undefined \<^verbatim>\<open>debug\<close>), and the response carries the name alone.\<close>

definition getHex :: "env \<Rightarrow> string \<Rightarrow> state \<Rightarrow> Response \<times> state" where
  "getHex e h3Index s =
     (if h3Index = [] then (StatusError 400 ''INVALID_H3_INDEX'', s)
      else
        (let respond = (\<lambda>entry st.
               let coastAware = applyCoastBufferFromCache e st h3Index
                                  \<lparr>zoneType = zoneType entry, debug = debug entry\<rparr>
               in (HexJson h3Index (zoneType coastAware) (debug coastAware) None None, st))
         in case hexCache s h3Index of
              Some entry \<Rightarrow> respond entry s
            | None \<Rightarrow>
                if h3Index \<in> objectPrototypeNames then (HexNoZone h3Index, s)
                else
                (case inferZoneTypeFromOverpass e h3Index s of
                   (Inr inferred, s1) \<Rightarrow>
                     (let entry = \<lparr>zoneType = zoneType inferred, debug = debug inferred\<rparr>;
                          s2 = s1\<lparr>hexCache := (hexCache s1)(h3Index \<mapsto> entry)\<rparr>;
                          s3 = saveHexCache e s2
                      in respond entry s3)
                 | (Inl err, s1) \<Rightarrow>
                     (case fallbackZoneType e h3Index of
                        None \<Rightarrow> (NoResponse, s1)
                      | Some zt \<Rightarrow>
                          respond \<lparr>zoneType = zt,
                                   debug = [''Overpass failed in /api/hex: '' @ messageOf err,
                                            ''Using hash-based zoneType fallback for this hex'']\<rparr>
                                  s1))))"

text \<open>\<^verbatim>\<open>GET /api/hex/:h3Index/classify-centroid\<close>\<close>

definition classifyCentroid :: "env \<Rightarrow> string \<Rightarrow> state \<Rightarrow> Response \<times> state" where
  "classifyCentroid e h3Index s =
     (case inferZoneTypeAtCentroid e h3Index of
        Inr inferred \<Rightarrow>
          (HexJson h3Index (zoneType inferred) (debug inferred)
             (Some (hasRoad inferred)) (roadClass inferred), s)
      | Inl err \<Rightarrow>
          (case fallbackZoneType e h3Index of
             None \<Rightarrow> (NoResponse, s)
           | Some zt \<Rightarrow>
               (HexJson h3Index zt
                  [''Centroid Overpass failed: '' @ messageOf err, ''Using fallback'']
                  None None, s)))"

text \<open>\<^verbatim>\<open>GET /api/hex/:h3Index/osm\<close>\<close>

definition getHexOsm :: "env \<Rightarrow> string \<Rightarrow> state \<Rightarrow> Response \<times> state" where
  "getHexOsm e h3Index s =
     (case inferZoneTypeFromOverpass e h3Index s of
        (Inr inferred, s1) \<Rightarrow>
          (let coastAware = applyCoastBufferFromCache e s1 h3Index inferred
           in (HexJson h3Index (zoneType coastAware) (debug coastAware)
                 (Some (hasRoad inferred)) (roadClass inferred), s1))
      | (Inl err, s1) \<Rightarrow>
          (case fallbackZoneType e h3Index of
             None \<Rightarrow> (NoResponse, s1)
           | Some zt \<Rightarrow>
               (HexJson h3Index zt
                  [''Overpass failed: '' @ messageOf err, ''Using hash-based fallback'']
                  None None, s1)))"

subsection \<open>Registration, reset and the market\<close>

text \<open>\<^verbatim>\<open>Map.prototype.set\<close>: replace the value of a key that is there, append a new key.\<close>

fun mapSet :: "'k \<Rightarrow> 'v \<Rightarrow> ('k \<times> 'v) list \<Rightarrow> ('k \<times> 'v) list" where
  "mapSet k v [] = [(k, v)]"
| "mapSet k v ((k', v') # rest) =
     (if k' = k then (k, v) # rest else (k', v') # mapSet k v rest)"

definition findUserByEmail :: "env \<Rightarrow> state \<Rightarrow> string \<Rightarrow> User option" where
  "findUserByEmail e s emailRaw =
     (let wanted = str_toLowerCase e (str_trim e emailRaw)
      in map_option snd
           (find (\<lambda>(k, u). str_toLowerCase e (email u) = wanted) (usersById s)))"

text \<open>\<^verbatim>\<open>createUser\<close>: the identifier is \<^verbatim>\<open>crypto.randomUUID()\<close>.\<close>

definition createUser :: "env \<Rightarrow> string \<Rightarrow> string \<Rightarrow> state \<Rightarrow> User \<times> state" where
  "createUser e emailRaw passwordRaw s =
     (let user = \<lparr>uid = randomUUID e,
                  email = str_toLowerCase e (str_trim e emailRaw),
                  passwordHash = bcryptHash e passwordRaw,
                  balance = Fin 10,
                  usdtBalance = Fin 1000,
                  ownedHexes = {DEFAULT_START_HEX}\<rparr>;
          s1 = s\<lparr>usersById := mapSet (randomUUID e) user (usersById s)\<rparr>
      in (user, saveUsers e s1))"

text \<open>\<^verbatim>\<open>POST /api/auth/register\<close>; the signed token of the response is left out.\<close>

definition register :: "env \<Rightarrow> JsValue \<Rightarrow> JsValue \<Rightarrow> state \<Rightarrow> Response \<times> state" where
  "register e emailField passwordField s =
     (case nonEmptyString emailField of
        None \<Rightarrow> (StatusError 400 ''INVALID_EMAIL'', s)
      | Some emailRaw \<Rightarrow>
          if CHR ''@'' \<notin> set emailRaw then (StatusError 400 ''INVALID_EMAIL'', s)
          else
            (case nonEmptyString passwordField of
               None \<Rightarrow> (StatusError 400 ''INVALID_PASSWORD'', s)
             | Some passwordRaw \<Rightarrow>
                 if length passwordRaw < 6 then (StatusError 400 ''INVALID_PASSWORD'', s)
                 else if findUserByEmail e s emailRaw \<noteq> None
                   then (StatusError 400 ''EMAIL_IN_USE'', s)
                 else
                   (case createUser e emailRaw passwordRaw s of
                      (user, s1) \<Rightarrow>
                        (RegisterOk (uid user) (email user) (balance user)
                           (card (ownedHexes user)), s1))))"

text \<open>\<^verbatim>\<open>POST /api/admin/reset-hexes\<close>\<close>

definition adminReset :: "env \<Rightarrow> string \<Rightarrow> state \<Rightarrow> Response \<times> state" where
  "adminReset e userId s =
     (case requireAuth s userId of
        None \<Rightarrow> (StatusError 401 ''UNAUTHENTICATED'', s)
      | Some user \<Rightarrow>
          (let resetCount = length (filter (\<lambda>(k, u). card (ownedHexes u) > 1) (usersById s));
               s1 = s\<lparr>usersById :=
                       map (\<lambda>(k, u). (k, u\<lparr>ownedHexes := {DEFAULT_START_HEX}\<rparr>)) (usersById s)\<rparr>;
               s2 = saveUsers e s1
           in (ResetOk resetCount, s2)))"

text \<open>\<^verbatim>\<open>POST /api/market/order\<close>\<close>

record OrderBody =
  o_side :: JsValue
  o_price :: JsValue
  o_amount :: JsValue

definition orderSide :: "JsValue \<Rightarrow> Side option" where
  "orderSide v = (if v = JString ''BUY'' then Some BUY
                  else if v = JString ''SELL'' then Some SELL else None)"

text \<open>\<^verbatim>\<open>typeof v === 'number' && v > 0 && Number.isFinite(v)\<close>\<close>

definition positiveNumber :: "JsValue \<Rightarrow> real option" where
  "positiveNumber v = (case finiteNumber v of
                         None \<Rightarrow> None
                       | Some r \<Rightarrow> if r \<le> 0 then None else Some r)"

definition pushTrade :: "env \<Rightarrow> Side \<Rightarrow> real \<Rightarrow> real \<Rightarrow> state \<Rightarrow> Trade \<times> state" where
  "pushTrade e sd pr am s =
     (let trade = \<lparr>trade_id = randomSuffix e, trade_side = sd, trade_price = pr,
                   trade_amount = am, trade_timestamp = dateNow e\<rparr>
      in (trade, saveTrades e (s\<lparr>trades := trades s @ [trade]\<rparr>)))"

definition marketOrder :: "env \<Rightarrow> string \<Rightarrow> OrderBody \<Rightarrow> state \<Rightarrow> Response \<times> state" where
  "marketOrder e userId body s =
     (case requireAuth s userId of
        None \<Rightarrow> (StatusError 401 ''UNAUTHENTICATED'', s)
      | Some user \<Rightarrow>
          (case orderSide (o_side body) of
             None \<Rightarrow> (StatusError 400 ''INVALID_SIDE'', s)
           | Some sd \<Rightarrow>
               (case positiveNumber (o_price body) of
                  None \<Rightarrow> (StatusError 400 ''INVALID_PRICE'', s)
                | Some pr \<Rightarrow>
                    (case positiveNumber (o_amount body) of
                       None \<Rightarrow> (StatusError 400 ''INVALID_AMOUNT'', s)
                     | Some am \<Rightarrow>
                         if sd = BUY \<and> jsLess (usdtBalance user) (jsMul (Fin pr) (Fin am))
                           then (StatusError 400 ''INSUFFICIENT_USDT'', s)
                         else if sd = SELL \<and> jsLess (balance user) (Fin am)
                           then (StatusError 400 ''INSUFFICIENT_GHX'', s)
                         else
                           (let change = (\<lambda>u. if sd = BUY
                                    then u\<lparr>usdtBalance :=
                                             jsSub (usdtBalance u) (jsMul (Fin pr) (Fin am)),
                                           balance := jsAdd (balance u) (Fin am)\<rparr>
                                    else u\<lparr>balance := jsSub (balance u) (Fin am),
                                           usdtBalance :=
                                             jsAdd (usdtBalance u) (jsMul (Fin pr) (Fin am))\<rparr>);
                                s1 = saveUsers e (updateUser userId change s)
                            in case pushTrade e sd pr am s1 of
                                 (trade, s2) \<Rightarrow>
                                   (OrderOk trade (balance (change user))
                                      (usdtBalance (change user)), s2))))))"

subsection \<open>The server as a state machine\<close>

datatype Request =
    Register JsValue JsValue
  | Mine string ClaimBody
  | Spawn string ClaimBody
  | DriveSimulate string JsValue
  | DriveStep string JsValue JsValue
  | GetHex string
  | ClassifyCentroid string
  | GetHexOsm string
  | AdminReset string
  | MarketOrder string OrderBody

fun handle :: "env \<Rightarrow> Request \<Rightarrow> state \<Rightarrow> Response \<times> state" where
  "handle e (Register em pw) s = register e em pw s"
| "handle e (Mine userId body) s = mine e userId body s"
| "handle e (Spawn userId body) s = spawn e userId body s"
| "handle e (DriveSimulate userId c) s = driveSimulate e userId c s"
| "handle e (DriveStep userId a b) s = driveStep e userId a b s"
| "handle e (GetHex h3Index) s = getHex e h3Index s"
| "handle e (ClassifyCentroid h3Index) s = classifyCentroid e h3Index s"
| "handle e (GetHexOsm h3Index) s = getHexOsm e h3Index s"
| "handle e (AdminReset userId) s = adminReset e userId s"
| "handle e (MarketOrder userId body) s = marketOrder e userId body s"

text \<open>A run of the server: each request arrives with the world as it is then.\<close>

fun run :: "(env \<times> Request) list \<Rightarrow> state \<Rightarrow> state" where
  "run [] s = s"
| "run ((e, r) # rest) s = run rest (snd (handle e r s))"

text \<open>The number of users whose owned set holds a cell.\<close>

definition ownerCount :: "state \<Rightarrow> string \<Rightarrow> nat" where
  "ownerCount s c = length (filter (\<lambda>(k, u). c \<in> ownedHexes u) (usersById s))"

text \<open>The keys of \<^verbatim>\<open>usersById\<close> are distinct, as those of a \<^verbatim>\<open>Map\<close> are.\<close>

definition wellFormed :: "state \<Rightarrow> bool" where
  "wellFormed s = distinct (map fst (usersById s))"

subsection \<open>Vocabulary of the statements\<close>

text \<open>Some element of the query result carries a tag of the given kind.\<close>

definition anyTag :: "((string \<rightharpoonup> string) \<Rightarrow> bool) \<Rightarrow> OverpassElement list \<Rightarrow> bool" where
  "anyTag p elements = list_ex (\<lambda>el. p (tagsOf el)) elements"

text \<open>A highway of class motorway or trunk.\<close>

definition tagMainRoad :: "(string \<rightharpoonup> string) \<Rightarrow> bool" where
  "tagMainRoad tags =
     (tags ''highway'' = Some ''motorway'' \<or> tags ''highway'' = Some ''trunk'')"

text \<open>A \<^verbatim>\<open>natural=coastline\<close> tag.\<close>

definition tagCoastline :: "(string \<rightharpoonup> string) \<Rightarrow> bool" where
  "tagCoastline tags = (tags ''natural'' = Some ''coastline'')"

text \<open>The user stored under an identifier owns the default start cell.\<close>

definition ownsStart :: "state \<Rightarrow> string \<Rightarrow> bool" where
  "ownsStart s k =
     (case map_of (usersById s) k of
        None \<Rightarrow> False
      | Some u \<Rightarrow> DEFAULT_START_HEX \<in> ownedHexes u)"

text \<open>A sequence of Mine calls, each with its caller, its body and the world at that time.\<close>

definition mineCalls :: "(env \<times> string \<times> ClaimBody) list \<Rightarrow> (env \<times> Request) list" where
  "mineCalls calls = map (\<lambda>(e, userId, body). (e, Mine userId body)) calls"


subsection \<open>A small world for concrete runs\<close>

text \<open>The server started with no data files: every load function returns its empty
  value.\<close>

definition emptyState :: state where
  "emptyState = \<lparr> usersById = [], hexCache = Map.empty, coastBufferHexes = {},
     treasury = Fin 0, miningEvents = [], trades = [],
     usersFile = None, hexCacheFile = None, coastBufferFile = None,
     treasuryFile = None, miningEventsFile = None, tradesFile = None \<rparr>"

text \<open>Three neighbouring cells; the first is the default start cell.\<close>

definition cellA :: string where "cellA = ''8b3f4dc1e26dfff''"
definition cellB :: string where "cellB = ''8b3f4dc1e268fff''"
definition cellC :: string where "cellC = ''8b3f4dc1e269fff''"

text \<open>A world in which the three cells lie within every disk around each other on the
  equator side of latitude 73, a path runs from its start straight to its end, every
  position fix resolves to \<open>cellB\<close>, files can be written, and the Overpass service answers
  every attempt with \<open>net\<close>. The first argument is the next random user identifier.\<close>

definition testEnv :: "string \<Rightarrow> (OverpassQuery \<Rightarrow> FetchResult) \<Rightarrow> env" where
  "testEnv newId net =
     \<lparr> dateNow = 1700000000000,
       fsWritable = (\<lambda>path. True),
       h3_gridDisk = (\<lambda>c k. Some [cellA, cellB, cellC]),
       h3_gridPathCells = (\<lambda>a b. Some [a, b]),
       h3_cellToLatLng = (\<lambda>c. Some (32, 34)),
       h3_cellToBoundary = (\<lambda>c. Some [(34, 32), (34, 32)]),
       h3_latLngToCell = (\<lambda>lat lon res. Some cellB),
       h3_errorMessage = ''Cell argument was not valid'',
       fetch = (\<lambda>url query attempt. net query),
       randomUUID = newId,
       bcryptHash = (\<lambda>pw. ''$2a$10$'' @ pw),
       str_trim = (\<lambda>x. x),
       str_toLowerCase = (\<lambda>x. x),
       randomSuffix = ''1700000000000-k3x9qz'' \<rparr>"

text \<open>The service is unreachable; it answers with one coastline way; it answers with one
  residential street.\<close>

definition netDown :: "OverpassQuery \<Rightarrow> FetchResult" where
  "netDown query = FetchThrows ''connect ECONNREFUSED''"

definition netCoast :: "OverpassQuery \<Rightarrow> FetchResult" where
  "netCoast query = Response 200 (JsonData (Some
     [\<lparr>el_type = ''way'', el_tags = Some [''natural'' \<mapsto> ''coastline'']\<rparr>]))"

definition netStreet :: "OverpassQuery \<Rightarrow> FetchResult" where
  "netStreet query = Response 200 (JsonData (Some
     [\<lparr>el_type = ''way'', el_tags = Some [''highway'' \<mapsto> ''residential'']\<rparr>]))"


text \<open>Request bodies for a claim of a cell: with no position fix at all, and with a fresh
  and accurate one.\<close>

definition bodyNoGps :: "string \<Rightarrow> ClaimBody" where
  "bodyNoGps c = \<lparr> b_h3Index = JString c, b_lat = JUndefined, b_lon = JUndefined,
     b_accuracyM = JUndefined, b_gpsAt = JUndefined \<rparr>"

definition bodyGps :: "string \<Rightarrow> ClaimBody" where
  "bodyGps c = \<lparr> b_h3Index = JString c, b_lat = JNumber 32, b_lon = JNumber 34,
     b_accuracyM = JNumber 10, b_gpsAt = JNumber 1699999999000 \<rparr>"

text \<open>Two users register, one after the other.\<close>

definition twoUsers :: state where
  "twoUsers = run
     [(testEnv ''u1'' netDown, Register (JString ''ann@example.org'') (JString ''secret1'')),
      (testEnv ''u2'' netDown, Register (JString ''bob@example.org'') (JString ''secret2''))]
     emptyState"

text \<open>An attempt of the retry loop succeeds: the endpoint of that attempt answers with a
  2xx status and a body that parses.\<close>

definition attemptSucceeds :: "env \<Rightarrow> OverpassQuery \<Rightarrow> nat \<Rightarrow> bool" where
  "attemptSucceeds e query attempt =
     (case fetch e (OVERPASS_ENDPOINTS ! (attempt mod length OVERPASS_ENDPOINTS)) query attempt of
        FetchThrows m \<Rightarrow> False
      | Response status body \<Rightarrow>
          200 \<le> status \<and> status \<le> 299 \<and> (case body of InvalidJson m \<Rightarrow> False | JsonData d \<Rightarrow> True))"


text \<open>A drive of ten cells.\<close>

definition tenCells :: "string list" where
  "tenCells = [''8b3f4dc1e2600ff'', ''8b3f4dc1e2601ff'', ''8b3f4dc1e2602ff'',
     ''8b3f4dc1e2603ff'', ''8b3f4dc1e2604ff'', ''8b3f4dc1e2605ff'', ''8b3f4dc1e2606ff'',
     ''8b3f4dc1e2607ff'', ''8b3f4dc1e2608ff'', ''8b3f4dc1e2609ff'']"

text \<open>The small world with every street tagged and the path between any two cells
  running through those ten cells.\<close>

definition driveEnv :: env where
  "driveEnv = (testEnv ''u3'' netStreet)\<lparr>h3_gridPathCells := (\<lambda>a b. Some tenCells)\<rparr>"

text \<open>A buy order for \<open>2^53 - 10\<close> units at the price \<open>2^-50\<close>, and the server after the
  first of two registered users has placed it.\<close>

definition bigPrice :: real where "bigPrice = 1 / 2 ^ 50"

definition bigAmount :: real where "bigAmount = 9007199254740982"

definition bigOrder :: OrderBody where
  "bigOrder = \<lparr> o_side = JString ''BUY'', o_price = JNumber bigPrice,
     o_amount = JNumber bigAmount \<rparr>"

definition richUser :: state where
  "richUser = run [(testEnv ''u3'' netStreet, MarketOrder ''u1'' bigOrder)] twoUsers"

section \<open>Double arithmetic\<close>

lemma roundHalfEven_int [simp]: "roundHalfEven (of_int k) = k"
  by (simp add: roundHalfEven_def)

lemma roundHalfEven_ge: "of_int j \<le> q \<Longrightarrow> j \<le> roundHalfEven q"
proof -
  assume "of_int j \<le> q"
  then have "j \<le> \<lfloor>q\<rfloor>" by (simp add: le_floor_iff)
  moreover have "\<lfloor>q\<rfloor> \<le> roundHalfEven q" by (simp add: roundHalfEven_def Let_def)
  ultimately show ?thesis by linarith
qed

lemma roundHalfEven_le: "q \<le> of_int j \<Longrightarrow> roundHalfEven q \<le> j"
proof -
  assume h: "q \<le> of_int j"
  have f: "\<lfloor>q\<rfloor> \<le> j" using h floor_mono [of q "of_int j"] by simp
  show ?thesis
  proof (cases "q = of_int \<lfloor>q\<rfloor>")
    case True
    then have "roundHalfEven q = \<lfloor>q\<rfloor>" by (metis roundHalfEven_int)
    with f show ?thesis by simp
  next
    case False
    moreover have "of_int \<lfloor>q\<rfloor> \<le> q" by (rule of_int_floor_le)
    ultimately have "of_int \<lfloor>q\<rfloor> < q" by linarith
    with h have "\<lfloor>q\<rfloor> < j" by linarith
    then have "\<lfloor>q\<rfloor> + 1 \<le> j" by simp
    moreover have "roundHalfEven q \<le> \<lfloor>q\<rfloor> + 1" by (simp add: roundHalfEven_def Let_def)
    ultimately show ?thesis by linarith
  qed
qed

lemma ulpExponent_eq:
  assumes "2 powr of_int k \<le> \<bar>x\<bar>" and "\<bar>x\<bar> < 2 powr of_int (k + 1)" and "- 1022 \<le> k"
  shows "ulpExponent x = k - 52"
proof -
  have "0 < (2::real) powr of_int k" by simp
  with assms(1) have pos: "0 < \<bar>x\<bar>" by linarith
  have "2 powr (- 1022) \<le> (2::real) powr of_int k" using assms(3) by (simp add: powr_mono)
  with assms(1) have "\<not> \<bar>x\<bar> < 2 powr (- 1022)" by linarith
  moreover have "\<lfloor>log 2 \<bar>x\<bar>\<rfloor> = k"
    using assms(1,2) pos by (simp add: floor_log_eq_powr_iff)
  ultimately show ?thesis by (simp add: ulpExponent_def)
qed

text \<open>A value on the grid of its own exponent is its own rounding.\<close>

lemma toDouble_grid:
  assumes "x = of_int m * 2 powr of_int (ulpExponent x)"
  shows "toDouble x = x"
proof -
  define p where "p = (2::real) powr of_int (ulpExponent x)"
  have p: "0 < p" by (simp add: p_def)
  have x: "x = of_int m * p" using assms by (simp add: p_def)
  have q: "x / p = of_int m" using p x by simp
  have "toDouble x = of_int (roundHalfEven (x / p)) * p" by (simp add: toDouble_def p_def)
  also have "\<dots> = of_int m * p" by (simp only: q roundHalfEven_int)
  finally show ?thesis using x by simp
qed


lemma powr_split:
  assumes "E \<le> e"
  shows "(2::real) powr of_int e = of_int (2 ^ nat (e - E)) * 2 powr of_int E"
proof -
  have "(2::real) powr of_int e = 2 powr (of_int (e - E) + of_int E)" by simp
  also have "\<dots> = 2 powr of_int (e - E) * 2 powr of_int E" by (rule powr_add)
  also have "(2::real) powr of_int (e - E) = 2 ^ nat (e - E)"
    by (subst powr_real_of_int) (use assms in simp_all)
  finally show ?thesis by simp
qed

text \<open>The exponent of a positive value below a power of two.\<close>

lemma ulpExponent_le:
  assumes "0 < \<bar>x\<bar>" and "\<bar>x\<bar> < 2 powr of_int (e + 53)" and "- 1074 \<le> e"
  shows "ulpExponent x \<le> e"
proof (cases "\<bar>x\<bar> < 2 powr (- 1022)")
  case True
  then show ?thesis using assms(3) by (simp add: ulpExponent_def)
next
  case False
  have "log 2 \<bar>x\<bar> < of_int (e + 53)"
    by (subst less_powr_iff [symmetric]) (use assms(1,2) in simp_all)
  then have "\<lfloor>log 2 \<bar>x\<bar>\<rfloor> < e + 53" by (simp only: floor_less_iff)
  then show ?thesis using False by (simp add: ulpExponent_def)
qed

text \<open>A value with a significand below \<open>2^53\<close> and an exponent in range is a double.\<close>

lemma toDouble_dyadic:
  assumes "\<bar>m\<bar> < 2 ^ 53" and "- 1074 \<le> e"
  shows "toDouble (of_int m * 2 powr of_int e) = of_int m * 2 powr of_int e"
proof (cases "m = 0")
  case True
  have "(0::real) = of_int 0 * 2 powr of_int (ulpExponent 0)" by simp
  from toDouble_grid [OF this] True show ?thesis by simp
next
  case False
  define x where "x = of_int m * (2::real) powr of_int e"
  have ax: "\<bar>x\<bar> = of_int \<bar>m\<bar> * 2 powr of_int e" by (simp add: x_def abs_mult)
  have pos: "0 < \<bar>x\<bar>" using False by (simp add: x_def)
  have "of_int \<bar>m\<bar> < (2::real) ^ 53" using assms(1) by (metis of_int_less_numeral_power_cancel_iff)
  then have "\<bar>x\<bar> < 2 ^ 53 * 2 powr of_int e" by (simp add: ax)
  also have "\<dots> = 2 powr of_int (e + 53)" by (simp add: powr_add)
  finally have E: "ulpExponent x \<le> e" using pos assms(2) by (intro ulpExponent_le) simp_all
  have "x = of_int (m * 2 ^ nat (e - ulpExponent x)) * 2 powr of_int (ulpExponent x)"
    using powr_split [OF E] by (simp add: x_def)
  from toDouble_grid [OF this] show ?thesis by (simp add: x_def)
qed

lemma toDouble_int:
  assumes "\<bar>n\<bar> \<le> 2 ^ 53"
  shows "toDouble (of_int n) = of_int n"
proof (cases "\<bar>n\<bar> < 2 ^ 53")
  case True
  from toDouble_dyadic [OF True, of 0] show ?thesis by simp
next
  case False
  with assms have n: "\<bar>n\<bar> = 2 ^ 53" by simp
  have "toDouble (of_int (sgn n) * 2 powr of_int 53) = of_int (sgn n) * 2 powr of_int 53"
    by (rule toDouble_dyadic) (simp_all add: sgn_if)
  moreover have "(of_int n :: real) = of_int (sgn n) * 2 powr of_int 53"
  proof -
    have "n = sgn n * \<bar>n\<bar>" by (simp add: sgn_if)
    then have "n = sgn n * 2 ^ 53" using n by simp
    then have "(of_int n :: real) = of_int (sgn n) * 2 ^ 53"
      by (metis of_int_mult of_int_numeral of_int_power)
    then show ?thesis by simp
  qed
  ultimately show ?thesis by simp
qed

lemma toDouble_nonneg: "0 \<le> x \<Longrightarrow> 0 \<le> toDouble x"
proof -
  assume "0 \<le> x"
  then have "of_int 0 \<le> x / 2 powr of_int (ulpExponent x)" by simp
  then have "0 \<le> roundHalfEven (x / 2 powr of_int (ulpExponent x))"
    by (rule roundHalfEven_ge)
  then show ?thesis by (simp add: toDouble_def)
qed

text \<open>Rounding does not cross an integer that is a double.\<close>

lemma toDouble_le_int:
  assumes "x \<le> of_int k" and "0 \<le> k" and "k \<le> 2 ^ 53"
  shows "toDouble x \<le> of_int k"
proof (cases "0 < x")
  case False
  then have "x / 2 powr of_int (ulpExponent x) \<le> of_int 0"
    by (simp add: divide_nonpos_pos)
  then have "roundHalfEven (x / 2 powr of_int (ulpExponent x)) \<le> 0"
    by (rule roundHalfEven_le)
  then have "toDouble x \<le> 0"
    by (simp add: toDouble_def mult_nonpos_nonneg)
  with assms(2) show ?thesis by simp
next
  case True
  define E where "E = ulpExponent x"
  define p where "p = (2::real) powr of_int E"
  have p: "0 < p" by (simp add: p_def)
  show ?thesis
  proof (cases "E \<le> 0")
    case le: True
    have "(2::real) powr of_int 0 = of_int (2 ^ nat (0 - E)) * 2 powr of_int E"
      by (rule powr_split [OF le])
    then have one: "(1::real) = of_int (2 ^ nat (- E)) * p" by (simp add: p_def)
    have k: "(of_int k :: real) = of_int (k * 2 ^ nat (- E)) * p"
    proof -
      have "(of_int k :: real) = of_int k * 1" by simp
      also have "\<dots> = of_int k * (of_int (2 ^ nat (- E)) * p)" by (simp only: one [symmetric])
      finally show ?thesis by simp
    qed
    have "x / p \<le> of_int (k * 2 ^ nat (- E))"
    proof -
      have "x / p \<le> of_int k / p" using assms(1) p by (simp add: divide_right_mono)
      also have "\<dots> = of_int (k * 2 ^ nat (- E))" using p by (subst k) simp
      finally show ?thesis .
    qed
    then have "roundHalfEven (x / p) \<le> k * 2 ^ nat (- E)" by (rule roundHalfEven_le)
    then have "of_int (roundHalfEven (x / p)) * p \<le> of_int (k * 2 ^ nat (- E)) * p"
      using p by (simp only: mult_le_cancel_right_pos of_int_le_iff)
    then show ?thesis by (simp only: k [symmetric] toDouble_def E_def [symmetric] p_def [symmetric])
  next
    case gt: False
    have nsub: "\<not> \<bar>x\<bar> < 2 powr (- 1022)"
      using gt by (auto simp: E_def ulpExponent_def split: if_splits)
    then have "E = \<lfloor>log 2 \<bar>x\<bar>\<rfloor> - 52" by (simp add: E_def ulpExponent_def)
    with gt have "53 \<le> \<lfloor>log 2 x\<rfloor>" using True by simp
    then have "of_int 53 \<le> log 2 x" by (simp only: le_floor_iff)
    then have "2 powr 53 \<le> x" using True by (simp add: le_log_iff)
    then have "2 ^ 53 \<le> x" by simp
    moreover have "(of_int k :: real) \<le> 2 ^ 53" using assms(3)
      by (metis of_int_le_numeral_power_cancel_iff)
    ultimately have x: "x = of_int (2 ^ 53)" using assms(1) by simp
    have "toDouble (of_int (2 ^ 53)) = of_int (2 ^ 53)" by (rule toDouble_int) simp
    with x assms(1) show ?thesis by simp
  qed
qed

lemma fromReal_int:
  assumes "\<bar>n\<bar> \<le> 2 ^ 53"
  shows "fromReal (of_int n) = Fin (of_int n)"
proof -
  have "(of_int \<bar>n\<bar> :: real) \<le> 2 ^ 53"
    using assms by (metis of_int_le_numeral_power_cancel_iff)
  then have "\<bar>of_int n :: real\<bar> \<le> 2 ^ 53" by simp
  moreover have "(2::real) ^ 53 < 2 ^ 1024" by simp
  ultimately have "(of_int n :: real) < 2 ^ 1024" and "- (2 ^ 1024) < (of_int n :: real)"
    by linarith+
  then show ?thesis by (simp add: fromReal_def toDouble_int [OF assms] Let_def)
qed

text \<open>Arithmetic on small integer literals is exact.\<close>

lemma fromReal_numeral [simp]:
  "(numeral w :: int) \<le> 2 ^ 53 \<Longrightarrow> fromReal (numeral w) = Fin (numeral w)"
  using fromReal_int [of "numeral w"] by simp

lemma fromReal_0 [simp]: "fromReal 0 = Fin 0"
  using fromReal_int [of 0] by simp

lemma fromReal_1 [simp]: "fromReal 1 = Fin 1"
  using fromReal_int [of 1] by simp

text \<open>Rounding does not cross a value on a grid at least as coarse as its own.\<close>

lemma toDouble_le_grid:
  assumes "x \<le> of_int m * 2 powr of_int e" and "ulpExponent x \<le> e"
  shows "toDouble x \<le> of_int m * 2 powr of_int e"
proof -
  define p where "p = (2::real) powr of_int (ulpExponent x)"
  have p: "0 < p" by (simp add: p_def)
  have g: "of_int m * 2 powr of_int e = of_int (m * 2 ^ nat (e - ulpExponent x)) * p"
    using powr_split [OF assms(2)] by (simp add: p_def)
  have "x / p \<le> of_int (m * 2 ^ nat (e - ulpExponent x)) * p / p"
    using assms(1) p by (simp only: g [symmetric] divide_right_mono less_imp_le)
  also have "\<dots> = of_int (m * 2 ^ nat (e - ulpExponent x))" using p by simp
  finally have "roundHalfEven (x / p) \<le> m * 2 ^ nat (e - ulpExponent x)"
    by (rule roundHalfEven_le)
  then have "of_int (roundHalfEven (x / p)) * p \<le> of_int (m * 2 ^ nat (e - ulpExponent x)) * p"
    using p by (simp only: mult_le_cancel_right_pos of_int_le_iff)
  then show ?thesis by (simp only: g toDouble_def p_def)
qed

lemma toDouble_ge_grid:
  assumes "of_int m * 2 powr of_int e \<le> x" and "ulpExponent x \<le> e"
  shows "of_int m * 2 powr of_int e \<le> toDouble x"
proof -
  define p where "p = (2::real) powr of_int (ulpExponent x)"
  have p: "0 < p" by (simp add: p_def)
  have g: "of_int m * 2 powr of_int e = of_int (m * 2 ^ nat (e - ulpExponent x)) * p"
    using powr_split [OF assms(2)] by (simp add: p_def)
  have "of_int (m * 2 ^ nat (e - ulpExponent x)) = of_int (m * 2 ^ nat (e - ulpExponent x)) * p / p"
    using p by simp
  also have "\<dots> \<le> x / p"
    using assms(1) p by (simp only: g [symmetric] divide_right_mono less_imp_le)
  finally have "m * 2 ^ nat (e - ulpExponent x) \<le> roundHalfEven (x / p)"
    by (rule roundHalfEven_ge)
  then have "of_int (m * 2 ^ nat (e - ulpExponent x)) * p \<le> of_int (roundHalfEven (x / p)) * p"
    using p by (simp only: mult_le_cancel_right_pos of_int_le_iff)
  then show ?thesis by (simp only: g toDouble_def p_def)
qed


text \<open>\<^verbatim>\<open>Math.floor(0.1 * N)\<close> for the length \<open>N\<close> of an array.\<close>

lemma pow_m20: "(2::real) powr of_int (- 20) = 1 / 1048576"
proof -
  have "(2::real) powr of_int (- 20) = 2 powr (- 20)" by simp
  also have "\<dots> = 1 / 2 powr 20" by (simp only: powr_minus_divide)
  also have "(2::real) powr 20 = 2 ^ 20" by (simp only: powr_numeral)
  finally show ?thesis by simp
qed

lemma floor_tenth:
  assumes "N < 2 ^ 32"
  shows "\<lfloor>toDouble (tenth * real N)\<rfloor> = int (N div 10)"
proof (cases "N = 0")
  case True
  have "toDouble (of_int 0) = of_int 0" by (rule toDouble_int) simp
  with True show ?thesis by simp
next
  case False
  define x where "x = tenth * real N"
  define k where "k = N div 10"
  define r where "r = N mod 10"
  have N: "real N = 10 * real k + real r"
    unfolding k_def r_def by (metis of_nat_add of_nat_mult of_nat_numeral div_mult_mod_eq mult.commute)
  have r: "real r \<le> 9"
  proof -
    have "r < 10" by (simp add: r_def)
    then have "r \<le> 9" by simp
    then show ?thesis by (metis of_nat_le_iff of_nat_numeral)
  qed
  have Nb: "real N < 2 ^ 32" using assms by (metis of_nat_less_numeral_power_cancel_iff)
  have Npos: "0 < real N" using False by simp
  have xpos: "0 < x" using Npos by (simp add: x_def tenth_def)
  have xlt: "x < 2 powr of_int (- 20 + 53)"
  proof -
    have "x < real N" using Npos by (simp add: x_def tenth_def)
    also have "\<dots> < 2 ^ 33" using Nb by simp
    also have "(2::real) ^ 33 = 2 powr of_int (- 20 + 53)" by simp
    finally show ?thesis .
  qed
  have E: "ulpExponent x \<le> - 20"
    using xpos xlt by (intro ulpExponent_le) simp_all
  then have E0: "ulpExponent x \<le> 0" by simp
  have lo: "of_int (int k) * 2 powr of_int 0 \<le> x"
    using N r by (simp add: x_def tenth_def)
  have hi': "x \<le> of_int ((int k + 1) * 1048576 - 1) * (1 / 1048576)"
    using N r Nb by (simp add: x_def tenth_def)
  have hi: "x \<le> of_int ((int k + 1) * 1048576 - 1) * 2 powr of_int (- 20)"
    unfolding pow_m20 by (rule hi')
  from toDouble_ge_grid [OF lo E0] have l: "of_int (int k) \<le> toDouble x" by simp
  from toDouble_le_grid [OF hi E]
  have "toDouble x \<le> of_int ((int k + 1) * 1048576 - 1) * (1 / 1048576)"
    by (simp only: pow_m20)
  then have u: "toDouble x < of_int (int k) + 1" by simp
  from l u have "\<lfloor>toDouble x\<rfloor> = int k" by (simp only: floor_unique)
  then show ?thesis by (simp add: x_def k_def)
qed


lemma fromReal_tenth:
  assumes "N < 2 ^ 32"
  shows "jsFloor (fromReal (tenth * real N)) = Fin (real (N div 10))"
proof -
  define d where "d = toDouble (tenth * real N)"
  have fl: "\<lfloor>d\<rfloor> = int (N div 10)" unfolding d_def by (rule floor_tenth [OF assms])
  have "0 \<le> tenth * real N" by (simp add: tenth_def)
  then have lo: "0 \<le> d" unfolding d_def by (rule toDouble_nonneg)
  have "d < of_int \<lfloor>d\<rfloor> + 1" by linarith
  also have "\<dots> = real (N div 10) + 1" by (simp add: fl)
  also have "\<dots> \<le> real N + 1" by (simp add: div_le_dividend)
  also have "\<dots> < 2 ^ 32 + 1"
    using assms by (metis add_strict_right_mono of_nat_less_numeral_power_cancel_iff)
  also have "\<dots> < (2::real) ^ 1024" by simp
  finally have hi: "d < 2 ^ 1024" .
  have "- (2 ^ 1024) < (0::real)" by simp
  with lo have lo': "\<not> d \<le> - (2 ^ 1024)" by linarith
  have "fromReal (tenth * real N) = Fin d"
    using hi lo' by (simp add: fromReal_def Let_def d_def [symmetric])
  then show ?thesis by (simp add: fl)
qed

text \<open>Above \<open>2^53\<close> the doubles are the even integers: \<open>2^53 + 1\<close> is a tie and rounds to
  \<open>2^53\<close>.\<close>

lemma toDouble_tie: "toDouble 9007199254740993 = 9007199254740992"
proof -
  have "ulpExponent 9007199254740993 = 53 - 52"
    by (rule ulpExponent_eq) simp_all
  then have E: "ulpExponent 9007199254740993 = 1" by simp
  have "roundHalfEven (9007199254740993 / 2) = 4503599627370496"
    by (simp add: roundHalfEven_def Let_def)
  then show ?thesis by (simp add: toDouble_def E)
qed

lemma fromReal_tie: "fromReal 9007199254740993 = Fin 9007199254740992"
  by (simp add: fromReal_def toDouble_tie Let_def)

section \<open>Evaluating the small world\<close>

lemma testEnv_sel:
  "dateNow (testEnv u n) = 1700000000000"
  "fsWritable (testEnv u n) = (\<lambda>path. True)"
  "h3_gridDisk (testEnv u n) = (\<lambda>c k. Some [cellA, cellB, cellC])"
  "h3_gridPathCells (testEnv u n) = (\<lambda>a b. Some [a, b])"
  "h3_cellToLatLng (testEnv u n) = (\<lambda>c. Some (32, 34))"
  "h3_cellToBoundary (testEnv u n) = (\<lambda>c. Some [(34, 32), (34, 32)])"
  "h3_latLngToCell (testEnv u n) = (\<lambda>lat lon res. Some cellB)"
  "h3_errorMessage (testEnv u n) = ''Cell argument was not valid''"
  "fetch (testEnv u n) = (\<lambda>url query attempt. n query)"
  "randomUUID (testEnv u n) = u"
  "bcryptHash (testEnv u n) = (\<lambda>pw. ''$2a$10$'' @ pw)"
  "str_trim (testEnv u n) = (\<lambda>x. x)"
  "str_toLowerCase (testEnv u n) = (\<lambda>x. x)"
  "randomSuffix (testEnv u n) = ''1700000000000-k3x9qz''"
  by (simp_all add: testEnv_def)

lemma emptyState_sel:
  "usersById emptyState = []"
  "hexCache emptyState = Map.empty"
  "coastBufferHexes emptyState = {}"
  "treasury emptyState = Fin 0"
  "miningEvents emptyState = []"
  "trades emptyState = []"
  "usersFile emptyState = None"
  "hexCacheFile emptyState = None"
  "coastBufferFile emptyState = None"
  "treasuryFile emptyState = None"
  "miningEventsFile emptyState = None"
  "tradesFile emptyState = None"
  by (simp_all add: emptyState_def)

lemma cells_distinct:
  "cellA \<noteq> []" "cellB \<noteq> []" "cellC \<noteq> []"
  "cellA \<noteq> cellB" "cellB \<noteq> cellA" "cellA \<noteq> cellC" "cellC \<noteq> cellA"
  "cellB \<noteq> cellC" "cellC \<noteq> cellB" "DEFAULT_START_HEX = cellA"
  "cellA \<notin> objectPrototypeNames" "cellB \<notin> objectPrototypeNames"
  "cellC \<notin> objectPrototypeNames"
  by (simp_all add: cellA_def cellB_def cellC_def DEFAULT_START_HEX_def
        objectPrototypeNames_def)


lemma fetch_coast: "overpassFetch (testEnv u netCoast) q = Inr [\<lparr>el_type = ''way'', el_tags = Some [''natural'' \<mapsto> ''coastline'']\<rparr>]"
  by (simp add: overpassFetch_def overpassFetchFrom.simps maxAttempts_def testEnv_sel netCoast_def Let_def)


section \<open>Properties of the classifiers\<close>

lemma scanHighway_fields [simp]:
  "hasSea (scanHighway h f) = hasSea f"
  "hasNature (scanHighway h f) = hasNature f"
  "hasUrban (scanHighway h f) = hasUrban f"
  "hasMilitary (scanHighway h f) = hasMilitary f"
  "hasHospital (scanHighway h f) = hasHospital f"
  "hasPrisonOrGovernment (scanHighway h f) = hasPrisonOrGovernment f"
  "hasCoast (scanHighway h f) = hasCoast f"
  "hasCliff (scanHighway h f) = hasCliff f"
  "seenRoad (scanHighway h f) = True"
  "hasMainRoad (scanHighway h f) = (hasMainRoad f \<or> h \<in> mainRoads)"
  by (simp_all add: scanHighway_def Let_def)

lemma tagMainRoad_iff:
  "tagMainRoad tags \<longleftrightarrow> tagHighway tags \<and> the (tags ''highway'') \<in> mainRoads"
  by (auto simp: tagMainRoad_def tagHighway_def truthy_def mainRoads_def split: option.splits)

lemma scanElementArea_fields:
  "hasMilitary (scanElementArea f el) = (hasMilitary f \<or> tagMilitary (tagsOf el))"
  "hasHospital (scanElementArea f el) = (hasHospital f \<or> tagHospital (tagsOf el))"
  "hasPrisonOrGovernment (scanElementArea f el) =
     (hasPrisonOrGovernment f \<or> tagPrisonOrGovernment (tagsOf el))"
  "hasMainRoad (scanElementArea f el) = (hasMainRoad f \<or> tagMainRoad (tagsOf el))"
  "seenRoad (scanElementArea f el) = (seenRoad f \<or> tagHighway (tagsOf el))"
  "hasSea (scanElementArea f el) = (hasSea f \<or> tagSea (tagsOf el))"
  "hasCoast (scanElementArea f el) = (hasCoast f \<or> tagCoast (tagsOf el))"
  "hasCliff (scanElementArea f el) = (hasCliff f \<or> tagCliff (tagsOf el))"
  "hasNature (scanElementArea f el) = (hasNature f \<or> tagNature (tagsOf el))"
  "hasUrban (scanElementArea f el) = (hasUrban f \<or> tagUrban (tagsOf el))"
  by (simp_all add: scanElementArea_def Let_def tagMainRoad_iff)

lemma scanElementCentroid_fields:
  "hasMilitary (scanElementCentroid f el) = (hasMilitary f \<or> tagMilitary (tagsOf el))"
  "hasHospital (scanElementCentroid f el) = (hasHospital f \<or> tagHospital (tagsOf el))"
  "hasPrisonOrGovernment (scanElementCentroid f el) =
     (hasPrisonOrGovernment f \<or> tagPrisonOrGovernment (tagsOf el))"
  "hasMainRoad (scanElementCentroid f el) = (hasMainRoad f \<or> tagMainRoad (tagsOf el))"
  "seenRoad (scanElementCentroid f el) = (seenRoad f \<or> tagHighway (tagsOf el))"
  "hasSea (scanElementCentroid f el) = (hasSea f \<or> tagSea (tagsOf el))"
  "hasNature (scanElementCentroid f el) = (hasNature f \<or> tagNature (tagsOf el))"
  "hasUrban (scanElementCentroid f el) = (hasUrban f \<or> tagUrban (tagsOf el))"
  by (simp_all add: scanElementCentroid_def Let_def tagMainRoad_iff)

text \<open>A flag that each iteration can only raise is raised by the loop exactly when some
  element raises it.\<close>

lemma foldl_flag:
  assumes "\<And>f el. g (step f el) = (g f \<or> p (tagsOf el))"
  shows "g (foldl step f elements) = (g f \<or> anyTag p elements)"
  using assms by (induction elements arbitrary: f) (auto simp: anyTag_def)

lemma scanArea_flags:
  "hasMilitary (scanArea els) = anyTag tagMilitary els"
  "hasHospital (scanArea els) = anyTag tagHospital els"
  "hasPrisonOrGovernment (scanArea els) = anyTag tagPrisonOrGovernment els"
  "hasMainRoad (scanArea els) = anyTag tagMainRoad els"
  "seenRoad (scanArea els) = anyTag tagHighway els"
  "hasSea (scanArea els) = anyTag tagSea els"
  "hasCoast (scanArea els) = anyTag tagCoast els"
  "hasCliff (scanArea els) = anyTag tagCliff els"
  "hasNature (scanArea els) = anyTag tagNature els"
  "hasUrban (scanArea els) = anyTag tagUrban els"
  unfolding scanArea_def
  by (simp_all add: foldl_flag [where step = scanElementArea] scanElementArea_fields
        initialFlags_def)

lemma scanCentroid_flags:
  "hasMilitary (scanCentroid els) = anyTag tagMilitary els"
  "hasHospital (scanCentroid els) = anyTag tagHospital els"
  "hasPrisonOrGovernment (scanCentroid els) = anyTag tagPrisonOrGovernment els"
  "hasMainRoad (scanCentroid els) = anyTag tagMainRoad els"
  "seenRoad (scanCentroid els) = anyTag tagHighway els"
  "hasSea (scanCentroid els) = anyTag tagSea els"
  "hasNature (scanCentroid els) = anyTag tagNature els"
  "hasUrban (scanCentroid els) = anyTag tagUrban els"
  unfolding scanCentroid_def
  by (simp_all add: foldl_flag [where step = scanElementCentroid] scanElementCentroid_fields
        initialFlags_def)

lemma area_zone:
  "zoneType (fst (classifyAreaElements e c els s)) =
     (if anyTag tagMilitary els then MILITARY
      else if anyTag tagPrisonOrGovernment els then PRISON
      else if anyTag tagHospital els then HOSPITAL
      else if anyTag tagMainRoad els then MAIN_ROAD
      else if anyTag tagCliff els then CLIFF
      else if anyTag tagCoast els then COAST
      else if anyTag tagUrban els then URBAN
      else if anyTag tagSea els then SEA
      else if anyTag tagNature els then NATURE_RESERVE
      else INTERURBAN)"
  by (simp add: classifyAreaElements_def Let_def scanArea_flags)

lemma centroid_zone:
  "zoneType (classifyCentroidElements els) =
     (if anyTag tagMilitary els then MILITARY
      else if anyTag tagPrisonOrGovernment els then PRISON
      else if anyTag tagHospital els then HOSPITAL
      else if anyTag tagMainRoad els then MAIN_ROAD
      else if anyTag tagUrban els then URBAN
      else if anyTag tagSea els then SEA
      else if anyTag tagNature els then NATURE_RESERVE
      else SEA)"
  by (simp add: classifyCentroidElements_def Let_def scanCentroid_flags)

lemma area_hasRoad: "hasRoad (fst (classifyAreaElements e c els s)) = anyTag tagHighway els"
  by (simp add: classifyAreaElements_def Let_def scanArea_flags)

lemma centroid_hasRoad: "hasRoad (classifyCentroidElements els) = anyTag tagHighway els"
  by (simp add: classifyCentroidElements_def Let_def scanCentroid_flags)

text \<open>
  \<^bold>\<open>Claim C5.\<close> Both classifiers resolve the flags of the scan to one category by first
  match in a fixed order: MILITARY, then PRISON (for a prison or government tag), then
  HOSPITAL, then MAIN_ROAD (forced by a highway of class motorway or trunk only), then
  CLIFF and COAST (area classifier only), then URBAN, then SEA, then NATURE_RESERVE. With no
  flag set the area classifier answers INTERURBAN and the centroid classifier SEA. A
  highway of any class sets the road-presence flag of the result and nothing else.
\<close>

theorem classifier_priority:
  "zoneType (fst (classifyAreaElements e c els s)) =
     (if anyTag tagMilitary els then MILITARY
      else if anyTag tagPrisonOrGovernment els then PRISON
      else if anyTag tagHospital els then HOSPITAL
      else if anyTag tagMainRoad els then MAIN_ROAD
      else if anyTag tagCliff els then CLIFF
      else if anyTag tagCoast els then COAST
      else if anyTag tagUrban els then URBAN
      else if anyTag tagSea els then SEA
      else if anyTag tagNature els then NATURE_RESERVE
      else INTERURBAN)
   \<and> zoneType (classifyCentroidElements els) =
     (if anyTag tagMilitary els then MILITARY
      else if anyTag tagPrisonOrGovernment els then PRISON
      else if anyTag tagHospital els then HOSPITAL
      else if anyTag tagMainRoad els then MAIN_ROAD
      else if anyTag tagUrban els then URBAN
      else if anyTag tagSea els then SEA
      else if anyTag tagNature els then NATURE_RESERVE
      else SEA)
   \<and> hasRoad (fst (classifyAreaElements e c els s)) = anyTag tagHighway els
   \<and> hasRoad (classifyCentroidElements els) = anyTag tagHighway els"
  by (simp only: area_zone centroid_zone area_hasRoad centroid_hasRoad simp_thms)

section \<open>The coastal buffer only grows\<close>

lemma markStep_foldl:
  "foldl markStep (A, ch) disk = (A \<union> set disk, ch \<or> \<not> set disk \<subseteq> A)"
  by (induction disk arbitrary: A ch) (auto simp: markStep_def)

lemma markCoastAndBuffer_eq:
  "markCoastAndBuffer e c s =
     (case h3_gridDisk e c 4 of
        None \<Rightarrow> s
      | Some disk \<Rightarrow>
          if set disk \<subseteq> coastBufferHexes s then s
          else saveCoastBuffer e (s\<lparr>coastBufferHexes := coastBufferHexes s \<union> set disk\<rparr>))"
  by (auto simp: markCoastAndBuffer_def markStep_foldl Let_def Un_absorb2 split: option.splits)

lemma save_coast [simp]:
  "coastBufferHexes (saveUsers e s) = coastBufferHexes s"
  "coastBufferHexes (saveHexCache e s) = coastBufferHexes s"
  "coastBufferHexes (saveCoastBuffer e s) = coastBufferHexes s"
  "coastBufferHexes (saveTreasury e s) = coastBufferHexes s"
  "coastBufferHexes (saveMiningEvents e s) = coastBufferHexes s"
  "coastBufferHexes (saveTrades e s) = coastBufferHexes s"
  "coastBufferHexes (updateUser k f s) = coastBufferHexes s"
  "coastBufferHexes (pushMiningEvent e k c s) = coastBufferHexes s"
  "coastBufferHexes (collectTreasuryFee e a s) = coastBufferHexes s"
  by (simp_all add: saveUsers_def saveHexCache_def saveCoastBuffer_def saveTreasury_def
        saveMiningEvents_def saveTrades_def updateUser_def pushMiningEvent_def
        collectTreasuryFee_def split: JsNum.splits)

lemma claim_loops_coast [simp]:
  "coastBufferHexes (foldl (claimSimulated e k k') s cells) = coastBufferHexes s"
  "coastBufferHexes (foldl (claimStepped e k k') s cells) = coastBufferHexes s"
  by (induction cells arbitrary: s) (simp_all add: claimSimulated_def claimStepped_def)

lemma markCoast_coast:
  "coastBufferHexes (markCoastAndBuffer e c s) =
     coastBufferHexes s \<union> (case h3_gridDisk e c 4 of None \<Rightarrow> {} | Some disk \<Rightarrow> set disk)"
  by (auto simp: markCoastAndBuffer_eq split: option.splits)

text \<open>The area classifier changes the state on the COAST branch only.\<close>

lemma classifyArea_state:
  "snd (classifyAreaElements e c els s) =
     (if zoneType (fst (classifyAreaElements e c els s)) = COAST
      then markCoastAndBuffer e c s else s)"
  by (simp add: classifyAreaElements_def Let_def)































section \<open>A coastline grows the buffer\<close>

lemma anyTag_coastline: "anyTag tagCoastline els \<Longrightarrow> anyTag tagCoast els"
  by (auto simp: anyTag_def tagCoastline_def tagCoast_def list_ex_iff)

text \<open>
  \<^bold>\<open>Claim C8.\<close> When the area query of a cell returns an element tagged
  \<^verbatim>\<open>natural=coastline\<close> and no element with a military, prison or government, hospital,
  motorway or trunk, or cliff tag, the classifier answers COAST, and the state it returns
  with that answer has the Coastal Buffer Set grown by the whole disk of radius 4 around
  the cell (the disk that \<^verbatim>\<open>h3.gridDisk\<close> returns for the cell).
\<close>

theorem coastline_grows_buffer:
  assumes "h3_cellToBoundary e c = Some boundary"
    and "overpassFetch e (AreaQuery c) = Inr els"
    and "anyTag tagCoastline els"
    and "\<not> anyTag tagMilitary els"
    and "\<not> anyTag tagPrisonOrGovernment els"
    and "\<not> anyTag tagHospital els"
    and "\<not> anyTag tagMainRoad els"
    and "\<not> anyTag tagCliff els"
    and "h3_gridDisk e c 4 = Some disk"
  shows "(\<exists>z. fst (inferZoneTypeFromOverpass e c s) = Inr z \<and> zoneType z = COAST)
         \<and> set disk \<subseteq> coastBufferHexes (snd (inferZoneTypeFromOverpass e c s))
         \<and> coastBufferHexes (snd (inferZoneTypeFromOverpass e c s))
              = coastBufferHexes s \<union> set disk"
proof -
  have zone: "zoneType (fst (classifyAreaElements e c els s)) = COAST"
    using assms(3-8) by (simp add: area_zone anyTag_coastline)
  have eq: "inferZoneTypeFromOverpass e c s =
              (Inr (fst (classifyAreaElements e c els s)), snd (classifyAreaElements e c els s))"
    using assms(1,2) by (simp add: inferZoneTypeFromOverpass_def split: prod.splits)
  have st: "snd (classifyAreaElements e c els s) = markCoastAndBuffer e c s"
    using zone by (simp add: classifyArea_state)
  have grow: "coastBufferHexes (markCoastAndBuffer e c s) = coastBufferHexes s \<union> set disk"
    using assms(9) by (simp add: markCoast_coast)
  show ?thesis using zone by (simp add: eq st grow)
qed

lemma anyTag_single: "anyTag p [el] = p (tagsOf el)"
  by (simp add: anyTag_def)

theorem coastline_grows_buffer_witness:
  "overpassFetch (testEnv ''u1'' netCoast) (AreaQuery cellB)
     = Inr [\<lparr>el_type = ''way'', el_tags = Some [''natural'' \<mapsto> ''coastline'']\<rparr>]
   \<and> h3_gridDisk (testEnv ''u1'' netCoast) cellB 4 = Some [cellA, cellB, cellC]
   \<and> (\<exists>z. fst (inferZoneTypeFromOverpass (testEnv ''u1'' netCoast) cellB emptyState) = Inr z
        \<and> zoneType z = COAST)
   \<and> coastBufferHexes (snd (inferZoneTypeFromOverpass (testEnv ''u1'' netCoast) cellB emptyState))
        = {cellA, cellB, cellC}"
proof -
  let ?els = "[\<lparr>el_type = ''way'', el_tags = Some [''natural'' \<mapsto> ''coastline'']\<rparr>]"
  have tags: "anyTag tagCoastline ?els" "\<not> anyTag tagMilitary ?els"
    "\<not> anyTag tagPrisonOrGovernment ?els" "\<not> anyTag tagHospital ?els"
    "\<not> anyTag tagMainRoad ?els" "\<not> anyTag tagCliff ?els"
    by (simp_all add: anyTag_single tagsOf_def tagCoastline_def tagMilitary_def
          tagPrisonOrGovernment_def tagHospital_def tagMainRoad_def tagCliff_def truthy_def)
  have b: "h3_cellToBoundary (testEnv ''u1'' netCoast) cellB = Some [(34, 32), (34, 32)]"
    by (simp add: testEnv_sel)
  have d: "h3_gridDisk (testEnv ''u1'' netCoast) cellB 4 = Some [cellA, cellB, cellC]"
    by (simp add: testEnv_sel)
  from coastline_grows_buffer [OF b fetch_coast tags d, of emptyState]
  show ?thesis by (simp add: emptyState_sel fetch_coast d)
qed

section \<open>The cache holds upstream results only\<close>



text \<open>The retry loop fails exactly when none of the attempts left succeeds.\<close>

lemma overpassFetchFrom_done:
  "\<not> k < maxAttempts \<Longrightarrow>
     overpassFetchFrom e q k = Inl (Error ''Overpass error: exhausted retries'')"
  by (subst overpassFetchFrom.simps) simp

lemma overpassFetchFrom_step:
  assumes k: "k < maxAttempts"
  shows "(\<exists>err. overpassFetchFrom e q k = Inl err)
     \<longleftrightarrow> \<not> attemptSucceeds e q k \<and> (\<exists>err. overpassFetchFrom e q (k + 1) = Inl err)"
proof -
  let ?r = "fetch e (OVERPASS_ENDPOINTS ! (k mod length OVERPASS_ENDPOINTS)) q k"
  have last: "\<exists>err. overpassFetchFrom e q (k + 1) = Inl err" if "\<not> k < maxAttempts - 1"
  proof -
    from that have "\<not> k + 1 < maxAttempts" by simp
    then show ?thesis by (simp add: overpassFetchFrom_done)
  qed
  show ?thesis
  proof (cases ?r)
    case (FetchThrows m)
    then have s: "\<not> attemptSucceeds e q k" by (simp add: attemptSucceeds_def)
    have "overpassFetchFrom e q k =
            (if k < maxAttempts - 1 then overpassFetchFrom e q (k + 1) else Inl (Error m))"
      using k FetchThrows by (subst overpassFetchFrom.simps) (simp add: Let_def)
    with s last show ?thesis by (cases "k < maxAttempts - 1") simp_all
  next
    case (Response status body)
    show ?thesis
    proof (cases "200 \<le> status \<and> status \<le> 299")
      case ok: True
      show ?thesis
      proof (cases body)
        case (InvalidJson m)
        then have s: "\<not> attemptSucceeds e q k" using Response by (simp add: attemptSucceeds_def)
        have "overpassFetchFrom e q k =
            (if k < maxAttempts - 1 then overpassFetchFrom e q (k + 1) else Inl (Error m))"
          using k Response ok InvalidJson by (subst overpassFetchFrom.simps) (simp add: Let_def)
        with s last show ?thesis by (cases "k < maxAttempts - 1") simp_all
      next
        case (JsonData d)
        then have s: "attemptSucceeds e q k" using Response ok by (simp add: attemptSucceeds_def)
        have "overpassFetchFrom e q k = Inr (case d of None \<Rightarrow> [] | Some els \<Rightarrow> els)"
          using k Response ok JsonData by (subst overpassFetchFrom.simps) (simp add: Let_def)
        with s show ?thesis by simp
      qed
    next
      case bad: False
      then have s: "\<not> attemptSucceeds e q k" using Response by (auto simp: attemptSucceeds_def)
      have "overpassFetchFrom e q k =
              (if status = 429 \<or> (500 \<le> status \<and> status \<le> 599) \<or> k < maxAttempts - 1
               then overpassFetchFrom e q (k + 1)
               else Inl (Error (''Overpass error: '' @ string_of_nat status)))"
        using k Response bad by (subst overpassFetchFrom.simps) (auto simp: Let_def)
      with s last show ?thesis
        by (cases "status = 429 \<or> (500 \<le> status \<and> status \<le> 599) \<or> k < maxAttempts - 1")
           simp_all
    qed
  qed
qed

lemma overpassFetchFrom_fails:
  "(\<exists>err. overpassFetchFrom e q k = Inl err)
     \<longleftrightarrow> (\<forall>n. k \<le> n \<and> n < maxAttempts \<longrightarrow> \<not> attemptSucceeds e q n)"
proof (induction "maxAttempts - k" arbitrary: k)
  case 0
  then have "\<not> k < maxAttempts" by simp
  then show ?case by (auto simp: overpassFetchFrom_done)
next
  case (Suc d)
  then have k: "k < maxAttempts" and d: "d = maxAttempts - (k + 1)" by simp_all
  have IH: "(\<exists>err. overpassFetchFrom e q (k + 1) = Inl err)
     \<longleftrightarrow> (\<forall>n. k + 1 \<le> n \<and> n < maxAttempts \<longrightarrow> \<not> attemptSucceeds e q n)"
    using Suc.hyps(1) [OF d] .
  have range: "(\<forall>n. k \<le> n \<and> n < maxAttempts \<longrightarrow> \<not> attemptSucceeds e q n)
     \<longleftrightarrow> \<not> attemptSucceeds e q k
         \<and> (\<forall>n. k + 1 \<le> n \<and> n < maxAttempts \<longrightarrow> \<not> attemptSucceeds e q n)"
  proof
    assume all: "\<forall>n. k \<le> n \<and> n < maxAttempts \<longrightarrow> \<not> attemptSucceeds e q n"
    then show "\<not> attemptSucceeds e q k
         \<and> (\<forall>n. k + 1 \<le> n \<and> n < maxAttempts \<longrightarrow> \<not> attemptSucceeds e q n)"
      using k by simp
  next
    assume rest: "\<not> attemptSucceeds e q k
         \<and> (\<forall>n. k + 1 \<le> n \<and> n < maxAttempts \<longrightarrow> \<not> attemptSucceeds e q n)"
    show "\<forall>n. k \<le> n \<and> n < maxAttempts \<longrightarrow> \<not> attemptSucceeds e q n"
    proof (intro allI impI)
      fix n assume n: "k \<le> n \<and> n < maxAttempts"
      show "\<not> attemptSucceeds e q n"
      proof (cases "n = k")
        case True
        with rest show ?thesis by simp
      next
        case False
        with n have "k + 1 \<le> n" by simp
        with rest n show ?thesis by blast
      qed
    qed
  qed
  have "(\<exists>err. overpassFetchFrom e q k = Inl err)
     \<longleftrightarrow> \<not> attemptSucceeds e q k \<and> (\<exists>err. overpassFetchFrom e q (k + 1) = Inl err)"
    by (rule overpassFetchFrom_step [OF k])
  also have "\<dots> \<longleftrightarrow> \<not> attemptSucceeds e q k
         \<and> (\<forall>n. k + 1 \<le> n \<and> n < maxAttempts \<longrightarrow> \<not> attemptSucceeds e q n)"
    by (simp only: IH)
  also have "\<dots> \<longleftrightarrow> (\<forall>n. k \<le> n \<and> n < maxAttempts \<longrightarrow> \<not> attemptSucceeds e q n)"
    by (rule range [symmetric])
  finally show ?case .
qed

lemma overpassFetch_fails:
  "(\<exists>err. overpassFetch e q = Inl err) \<longleftrightarrow> (\<forall>n < maxAttempts. \<not> attemptSucceeds e q n)"
  by (simp add: overpassFetch_def overpassFetchFrom_fails)


lemma save_cache [simp]:
  "hexCache (saveUsers e s) = hexCache s"
  "hexCache (saveHexCache e s) = hexCache s"
  "hexCache (saveCoastBuffer e s) = hexCache s"
  "hexCache (saveTreasury e s) = hexCache s"
  "hexCache (saveMiningEvents e s) = hexCache s"
  "hexCache (saveTrades e s) = hexCache s"
  "hexCache (updateUser k f s) = hexCache s"
  "hexCache (pushMiningEvent e k c s) = hexCache s"
  "hexCache (collectTreasuryFee e a s) = hexCache s"
  by (simp_all add: saveUsers_def saveHexCache_def saveCoastBuffer_def saveTreasury_def
        saveMiningEvents_def saveTrades_def updateUser_def pushMiningEvent_def
        collectTreasuryFee_def split: JsNum.splits)

lemma claim_loops_cache [simp]:
  "hexCache (foldl (claimSimulated e k k') s cells) = hexCache s"
  "hexCache (foldl (claimStepped e k k') s cells) = hexCache s"
  by (induction cells arbitrary: s) (simp_all add: claimSimulated_def claimStepped_def)

lemma markCoast_cache [simp]: "hexCache (markCoastAndBuffer e c s) = hexCache s"
  by (simp add: markCoastAndBuffer_eq split: option.splits)




















lemma classifyCentroid_fallback:
  assumes "overpassFetch e (CentroidQuery c) = Inl err"
    and "fallbackZoneType e c = Some zt"
  shows "\<exists>dbg. classifyCentroid e c s = (HexJson c zt dbg None None, s)"
  using assms
  by (auto simp: classifyCentroid_def inferZoneTypeAtCentroid_def fallbackZoneType_def
        split: option.splits)









section \<open>Users, balances and the treasury\<close>

lemma requireAuth_updateUser:
  "requireAuth (updateUser k f s) k' =
     (if k' = k then map_option f (requireAuth s k') else requireAuth s k')"
proof -
  have "map_of (map (\<lambda>(k'', u). if k'' = k then (k'', f u) else (k'', u)) xs) k' =
          (if k' = k then map_option f (map_of xs k') else map_of xs k')" for xs
    by (induction xs) auto
  then show ?thesis by (simp add: requireAuth_def updateUser_def)
qed

lemma requireAuth_frame [simp]:
  "requireAuth (saveUsers e s) = requireAuth s"
  "requireAuth (saveHexCache e s) = requireAuth s"
  "requireAuth (saveCoastBuffer e s) = requireAuth s"
  "requireAuth (saveTreasury e s) = requireAuth s"
  "requireAuth (saveMiningEvents e s) = requireAuth s"
  "requireAuth (saveTrades e s) = requireAuth s"
  "requireAuth (pushMiningEvent e k c s) = requireAuth s"
  "requireAuth (collectTreasuryFee e a s) = requireAuth s"
  by (simp_all add: fun_eq_iff requireAuth_def saveUsers_def saveHexCache_def
        saveCoastBuffer_def saveTreasury_def saveMiningEvents_def saveTrades_def
        pushMiningEvent_def collectTreasuryFee_def split: JsNum.splits)

lemma treasury_frame [simp]:
  "treasury (saveUsers e s) = treasury s"
  "treasury (saveHexCache e s) = treasury s"
  "treasury (saveCoastBuffer e s) = treasury s"
  "treasury (saveTreasury e s) = treasury s"
  "treasury (saveMiningEvents e s) = treasury s"
  "treasury (saveTrades e s) = treasury s"
  "treasury (pushMiningEvent e k c s) = treasury s"
  "treasury (updateUser k f s) = treasury s"
  by (simp_all add: saveUsers_def saveHexCache_def saveCoastBuffer_def saveTreasury_def
        saveMiningEvents_def saveTrades_def pushMiningEvent_def updateUser_def)

lemma treasury_collect:
  "treasury (collectTreasuryFee e (Fin a) s) =
     (if a \<le> 0 then treasury s else jsAdd (treasury s) (Fin a))"
  by (simp add: collectTreasuryFee_def saveTreasury_def)

lemma claimStepped_loop_treasury [simp]:
  "treasury (foldl (claimStepped e k v) s cells) = treasury s"
  by (induction cells arbitrary: s) (simp_all add: claimStepped_def)

lemma claimStepped_user:
  "requireAuth (claimStepped e k v s idx) k' =
     (if k' = k
      then map_option (\<lambda>u. u\<lparr>ownedHexes := insert idx (ownedHexes u)\<rparr>) (requireAuth s k')
      else requireAuth s k')"
  by (simp add: claimStepped_def requireAuth_updateUser)

lemma claimStepped_loop_user:
  "requireAuth (foldl (claimStepped e k v) s cells) k' =
     (if k' = k
      then map_option (\<lambda>u. u\<lparr>ownedHexes := ownedHexes u \<union> set cells\<rparr>) (requireAuth s k')
      else requireAuth s k')"
proof (induction cells arbitrary: s)
  case Nil
  show ?case by (cases "requireAuth s k'") auto
next
  case (Cons idx cells)
  have "requireAuth (foldl (claimStepped e k v) s (idx # cells)) k' =
          requireAuth (foldl (claimStepped e k v) (claimStepped e k v s idx) cells) k'"
    by simp
  also have "\<dots> = (if k' = k
      then map_option (\<lambda>u. u\<lparr>ownedHexes := ownedHexes u \<union> set cells\<rparr>)
             (requireAuth (claimStepped e k v s idx) k')
      else requireAuth (claimStepped e k v s idx) k')"
    by (rule Cons.IH)
  also have "\<dots> = (if k' = k
      then map_option (\<lambda>u. u\<lparr>ownedHexes := ownedHexes u \<union> set (idx # cells)\<rparr>)
             (requireAuth s k')
      else requireAuth s k')"
    by (cases "requireAuth s k'") (auto simp: claimStepped_user)
  finally show ?case .
qed

lemma driveEnv_sel:
  "h3_gridPathCells driveEnv = (\<lambda>a b. Some tenCells)"
  "h3_cellToLatLng driveEnv = (\<lambda>c. Some (32, 34))"
  "fetch driveEnv = (\<lambda>url query attempt. netStreet query)"
  by (simp_all add: driveEnv_def testEnv_sel)

lemma fetch_street:
  "overpassFetch driveEnv q =
     Inr [\<lparr>el_type = ''way'', el_tags = Some [''highway'' \<mapsto> ''residential'']\<rparr>]"
  by (simp add: overpassFetch_def overpassFetchFrom.simps maxAttempts_def driveEnv_sel
        netStreet_def Let_def)

lemma isRoadHex_street: "isRoadHex driveEnv c"
  by (simp add: isRoadHex_def inferZoneTypeAtCentroid_def driveEnv_sel fetch_street
        centroid_hasRoad anyTag_def tagHighway_def tagsOf_def truthy_def)

lemma twoUsers_eq:
  "usersById twoUsers =
     [(''u1'', \<lparr>uid = ''u1'', email = ''ann@example.org'', passwordHash = ''$2a$10$secret1'',
               balance = Fin 10, usdtBalance = Fin 1000, ownedHexes = {DEFAULT_START_HEX}\<rparr>),
      (''u2'', \<lparr>uid = ''u2'', email = ''bob@example.org'', passwordHash = ''$2a$10$secret2'',
               balance = Fin 10, usdtBalance = Fin 1000, ownedHexes = {DEFAULT_START_HEX}\<rparr>)]"
  by (simp add: twoUsers_def register_def createUser_def findUserByEmail_def Let_def
        testEnv_sel emptyState_sel saveUsers_def nonEmptyString_def)

lemma twoUsers_treasury: "treasury twoUsers = Fin 0"
  by (simp add: twoUsers_def register_def createUser_def findUserByEmail_def Let_def
        testEnv_sel emptyState_sel saveUsers_def nonEmptyString_def)

section \<open>One owner per cell under Mine\<close>

lemma users_frame [simp]:
  "usersById (saveUsers e s) = usersById s"
  "usersById (saveHexCache e s) = usersById s"
  "usersById (saveCoastBuffer e s) = usersById s"
  "usersById (saveTreasury e s) = usersById s"
  "usersById (saveMiningEvents e s) = usersById s"
  "usersById (saveTrades e s) = usersById s"
  "usersById (pushMiningEvent e k c s) = usersById s"
  "usersById (collectTreasuryFee e a s) = usersById s"
  by (simp_all add: saveUsers_def saveHexCache_def saveCoastBuffer_def saveTreasury_def
        saveMiningEvents_def saveTrades_def pushMiningEvent_def collectTreasuryFee_def
        split: JsNum.splits)

lemma users_updateUser:
  "usersById (updateUser k f s) =
     map (\<lambda>(k', u). if k' = k then (k', f u) else (k', u)) (usersById s)"
  by (simp add: updateUser_def)

lemma global_union:
  "foldl (\<lambda>all (k, u). all \<union> ownedHexes u) A xs = A \<union> (\<Union>p\<in>set xs. ownedHexes (snd p))"
  by (induction xs arbitrary: A) auto

lemma buildGlobalOwnedHexesSet_eq:
  "buildGlobalOwnedHexesSet s = (\<Union>p\<in>set (usersById s). ownedHexes (snd p))"
  by (simp add: buildGlobalOwnedHexesSet_def global_union)

lemma key_count:
  "distinct (map fst xs) \<Longrightarrow> length (filter (\<lambda>(k', u). k' = k) xs) \<le> 1"
proof (induction xs)
  case Nil
  show ?case by simp
next
  case (Cons p xs)
  obtain k' u where p: "p = (k', u)" by (cases p)
  show ?case
  proof (cases "k' = k")
    case True
    with Cons.prems p have "k \<notin> fst ` set xs" by simp
    then have "filter (\<lambda>(k', u). k' = k) xs = []"
      by (auto simp: filter_empty_conv image_iff)
    with True p show ?thesis by simp
  next
    case False
    with Cons p show ?thesis by simp
  qed
qed

text \<open>The successful branch of \<^verbatim>\<open>/api/mine\<close> leaves the number of owners of a cell at
  most one.\<close>

lemma keys_map:
  "map fst (map (\<lambda>(k', u). if k' = k then (k', f u) else (k', u)) xs) = map fst xs"
  by (induction xs) auto

lemma insert_ownerCount:
  assumes wf: "distinct (map fst xs)"
    and one: "length (filter (\<lambda>(k', u). c \<in> ownedHexes u) xs) \<le> 1"
    and free: "\<forall>p\<in>set xs. c' \<notin> ownedHexes (snd p)"
  shows "length (filter (\<lambda>(k', u). c \<in> ownedHexes u)
           (map (\<lambda>(k', u). if k' = k
                   then (k', u\<lparr>ownedHexes := insert c' (ownedHexes u), balance := jsAdd (balance u) (Fin 1)\<rparr>)
                   else (k', u)) xs)) \<le> 1"
proof -
  let ?g = "\<lambda>(k', u). if k' = k
                   then (k', u\<lparr>ownedHexes := insert c' (ownedHexes u), balance := jsAdd (balance u) (Fin 1)\<rparr>)
                   else (k', u)"
  let ?P = "\<lambda>(k', u). c \<in> ownedHexes u"
  have len: "length (filter ?P (map ?g xs)) = length (filter (?P \<circ> ?g) xs)"
    by (simp only: filter_map length_map)
  show ?thesis
  proof (cases "c = c'")
    case False
    have "filter (?P \<circ> ?g) xs = filter ?P xs"
      using False by (intro filter_cong refl) (auto split: if_splits)
    with one len show ?thesis by (simp only:)
  next
    case True
    have "filter (?P \<circ> ?g) xs = filter (\<lambda>(k', u). k' = k) xs"
      using free True by (intro filter_cong refl) (auto split: if_splits)
    with key_count [OF wf, of k] len show ?thesis by (simp only:)
  qed
qed

lemma mine_users:
  "usersById (snd (mine e k b s)) = usersById s
   \<or> (\<exists>c'. c' \<notin> buildGlobalOwnedHexesSet s
        \<and> usersById (snd (mine e k b s)) =
            map (\<lambda>(k', u). if k' = k
                   then (k', u\<lparr>ownedHexes := insert c' (ownedHexes u), balance := jsAdd (balance u) (Fin 1)\<rparr>)
                   else (k', u)) (usersById s))"
  by (auto simp: mine_def Let_def users_updateUser split: option.splits)

lemma mine_wellFormed: "wellFormed s \<Longrightarrow> wellFormed (snd (mine e k b s))"
  using mine_users [of e k b s]
  by (elim disjE exE conjE) (simp_all add: wellFormed_def keys_map del: map_map)

lemma mine_ownerCount:
  assumes "wellFormed s" and "ownerCount s c \<le> 1"
  shows "ownerCount (snd (mine e k b s)) c \<le> 1"
proof -
  from mine_users [of e k b s] show ?thesis
  proof (elim disjE exE conjE)
    assume "usersById (snd (mine e k b s)) = usersById s"
    with assms(2) show ?thesis by (simp add: ownerCount_def)
  next
    fix c'
    assume free: "c' \<notin> buildGlobalOwnedHexesSet s"
      and us: "usersById (snd (mine e k b s)) =
            map (\<lambda>(k', u). if k' = k
                   then (k', u\<lparr>ownedHexes := insert c' (ownedHexes u), balance := jsAdd (balance u) (Fin 1)\<rparr>)
                   else (k', u)) (usersById s)"
    from free have "\<forall>p\<in>set (usersById s). c' \<notin> ownedHexes (snd p)"
      by (simp add: buildGlobalOwnedHexesSet_eq)
    from insert_ownerCount [OF assms(1) [unfolded wellFormed_def]
           assms(2) [unfolded ownerCount_def] this, of k]
    show ?thesis by (simp add: ownerCount_def us)
  qed
qed

lemma mineCalls_run:
  assumes "wellFormed s" and "ownerCount s c \<le> 1"
  shows "wellFormed (run (mineCalls calls) s) \<and> ownerCount (run (mineCalls calls) s) c \<le> 1"
  using assms
proof (induction calls arbitrary: s)
  case Nil
  then show ?case by (simp add: mineCalls_def)
next
  case (Cons call calls)
  obtain e k b where call: "call = (e, k, b)" by (cases call)
  have step: "run (mineCalls (call # calls)) s = run (mineCalls calls) (snd (mine e k b s))"
    by (simp add: mineCalls_def call)
  show ?case
    unfolding step
    by (rule Cons.IH) (rule mine_wellFormed [OF Cons.prems(1)],
         rule mine_ownerCount [OF Cons.prems])
qed

lemma mine_owned_by_other:
  assumes "requireAuth s userId = Some user"
    and "nonEmptyString (b_h3Index body) = Some c"
    and "c \<notin> ownedHexes user"
    and "(k, other) \<in> set (usersById s)"
    and "c \<in> ownedHexes other"
  shows "mine e userId body s = (Refused OWNED_BY_OTHER (balance user) (Some False), s)"
proof -
  from assms(4,5) have "c \<in> buildGlobalOwnedHexesSet s"
    by (force simp: buildGlobalOwnedHexesSet_eq)
  with assms(1-3) show ?thesis by (simp add: mine_def)
qed

lemma mine_already_mined:
  assumes "requireAuth s userId = Some user"
    and "nonEmptyString (b_h3Index body) = Some c"
    and "c \<in> ownedHexes user"
  shows "mine e userId body s = (Refused ALREADY_MINED (balance user) (Some True), s)"
  using assms by (simp add: mine_def)


text \<open>Concrete runs: after the two registrations, user \<open>u1\<close> mines \<open>cellB\<close> with a body
  that carries no position fix.\<close>

lemma twoUsers_coast: "coastBufferHexes twoUsers = {}"
  by (simp add: twoUsers_def register_def createUser_def findUserByEmail_def Let_def
        testEnv_sel emptyState_sel saveUsers_def nonEmptyString_def)

lemma mine_cellB:
  "fst (mine (testEnv u n) ''u1'' (bodyNoGps cellB) twoUsers) = MineOk (Fin 11)"
  "usersById (snd (mine (testEnv u n) ''u1'' (bodyNoGps cellB) twoUsers)) =
     [(''u1'', \<lparr>uid = ''u1'', email = ''ann@example.org'', passwordHash = ''$2a$10$secret1'',
               balance = Fin 11, usdtBalance = Fin 1000, ownedHexes = {cellB, DEFAULT_START_HEX}\<rparr>),
      (''u2'', \<lparr>uid = ''u2'', email = ''bob@example.org'', passwordHash = ''$2a$10$secret2'',
               balance = Fin 10, usdtBalance = Fin 1000, ownedHexes = {DEFAULT_START_HEX}\<rparr>)]"
  by (simp_all add: mine_def requireAuth_def twoUsers_eq bodyNoGps_def nonEmptyString_def
        buildGlobalOwnedHexesSet_def twoUsers_coast users_updateUser Let_def cells_distinct)

text \<open>
  \<^bold>\<open>Claim C1\<close> (as amended). Mine keeps a cell with at most one owner: from a state in
  which at most one user's owned set contains a cell, every sequence of Mine calls by any
  users leads to a state in which at most one user's owned set contains it. A Mine call
  for a cell that is in another user's owned set and not in the caller's own fails with
  OWNED_BY_OTHER and changes no state; when the caller owns the cell too, the call
  fails with ALREADY_MINED and changes no state.
\<close>

theorem mine_keeps_single_owner:
  "(wellFormed s \<and> ownerCount s c \<le> 1 \<longrightarrow>
      wellFormed (run (mineCalls calls) s) \<and> ownerCount (run (mineCalls calls) s) c \<le> 1)
   \<and> (requireAuth s userId = Some user \<and> nonEmptyString (b_h3Index body) = Some c
        \<and> c \<notin> ownedHexes user \<and> (k, other) \<in> set (usersById s) \<and> c \<in> ownedHexes other
      \<longrightarrow> mine e userId body s = (Refused OWNED_BY_OTHER (balance user) (Some False), s))
   \<and> (requireAuth s userId = Some user \<and> nonEmptyString (b_h3Index body) = Some c
        \<and> c \<in> ownedHexes user
      \<longrightarrow> mine e userId body s = (Refused ALREADY_MINED (balance user) (Some True), s))"
  using mineCalls_run [of s c calls] mine_owned_by_other [of s userId user body c k other e]
    mine_already_mined [of s userId user body c e]
  by blast

theorem mine_keeps_single_owner_witness:
  "wellFormed twoUsers
   \<and> ownerCount twoUsers cellB \<le> 1
   \<and> ownerCount (run (mineCalls [(testEnv ''u3'' netDown, ''u1'', bodyNoGps cellB),
                                 (testEnv ''u3'' netDown, ''u2'', bodyNoGps cellB)])
                    twoUsers) cellB \<le> 1
   \<and> mine (testEnv ''u3'' netDown) ''u2'' (bodyNoGps cellB)
        (snd (mine (testEnv ''u3'' netDown) ''u1'' (bodyNoGps cellB) twoUsers))
      = (Refused OWNED_BY_OTHER (Fin 10) (Some False),
         snd (mine (testEnv ''u3'' netDown) ''u1'' (bodyNoGps cellB) twoUsers))
   \<and> mine (testEnv ''u3'' netDown) ''u1'' (bodyNoGps cellB)
        (snd (mine (testEnv ''u3'' netDown) ''u1'' (bodyNoGps cellB) twoUsers))
      = (Refused ALREADY_MINED (Fin 11) (Some True),
         snd (mine (testEnv ''u3'' netDown) ''u1'' (bodyNoGps cellB) twoUsers))"
proof -
  let ?e = "testEnv ''u3'' netDown"
  let ?s1 = "snd (mine ?e ''u1'' (bodyNoGps cellB) twoUsers)"
  let ?u1 = "\<lparr>uid = ''u1'', email = ''ann@example.org'', passwordHash = ''$2a$10$secret1'',
               balance = Fin 11, usdtBalance = Fin 1000, ownedHexes = {cellB, DEFAULT_START_HEX}\<rparr>"
  let ?u2 = "\<lparr>uid = ''u2'', email = ''bob@example.org'', passwordHash = ''$2a$10$secret2'',
               balance = Fin 10, usdtBalance = Fin 1000, ownedHexes = {DEFAULT_START_HEX}\<rparr>"
  have wf: "wellFormed twoUsers" by (simp add: wellFormed_def twoUsers_eq)
  have cnt: "ownerCount twoUsers cellB \<le> 1"
    by (simp add: ownerCount_def twoUsers_eq cells_distinct)
  from mine_keeps_single_owner [of twoUsers cellB
         "[(?e, ''u1'', bodyNoGps cellB), (?e, ''u2'', bodyNoGps cellB)]"] wf cnt
  have after: "ownerCount (run (mineCalls [(?e, ''u1'', bodyNoGps cellB),
                 (?e, ''u2'', bodyNoGps cellB)]) twoUsers) cellB \<le> 1"
    by blast
  have body: "nonEmptyString (b_h3Index (bodyNoGps cellB)) = Some cellB"
    by (simp add: bodyNoGps_def nonEmptyString_def cells_distinct)
  have a2: "requireAuth ?s1 ''u2'' = Some ?u2" and a1: "requireAuth ?s1 ''u1'' = Some ?u1"
    by (simp_all add: requireAuth_def mine_cellB)
  have other: "(''u1'', ?u1) \<in> set (usersById ?s1)" by (simp add: mine_cellB)
  have notown: "cellB \<notin> ownedHexes ?u2" and own: "cellB \<in> ownedHexes ?u1"
    by (simp_all add: cells_distinct)
  from mine_keeps_single_owner [of ?s1 cellB _ "''u2''" ?u2 "bodyNoGps cellB" "''u1''" ?u1 ?e]
    a2 body notown other own
  have r2: "mine ?e ''u2'' (bodyNoGps cellB) ?s1
              = (Refused OWNED_BY_OTHER (balance ?u2) (Some False), ?s1)"
    by blast
  from mine_keeps_single_owner [of ?s1 cellB _ "''u1''" ?u1 "bodyNoGps cellB" _ _ ?e]
    a1 body own
  have r1: "mine ?e ''u1'' (bodyNoGps cellB) ?s1
              = (Refused ALREADY_MINED (balance ?u1) (Some True), ?s1)"
    by blast
  show ?thesis using wf cnt after r2 r1 by simp
qed

text \<open>Two registered users both hold the default start cell, before and after any Mine
  call; and a Mine call of the first for that cell, which the second owns, is answered
  ALREADY_MINED.\<close>

theorem single_owner_counterexample:
  "ownerCount twoUsers DEFAULT_START_HEX = 2
   \<and> ownerCount (run (mineCalls [(testEnv ''u3'' netDown, ''u1'', bodyNoGps cellB)]) twoUsers)
        DEFAULT_START_HEX = 2
   \<and> (''u2'', \<lparr>uid = ''u2'', email = ''bob@example.org'', passwordHash = ''$2a$10$secret2'',
               balance = Fin 10, usdtBalance = Fin 1000, ownedHexes = {DEFAULT_START_HEX}\<rparr>)
        \<in> set (usersById twoUsers)
   \<and> mine (testEnv ''u3'' netDown) ''u1'' (bodyNoGps DEFAULT_START_HEX) twoUsers
        = (Refused ALREADY_MINED (Fin 10) (Some True), twoUsers)"
proof -
  have "ownerCount twoUsers DEFAULT_START_HEX = 2"
    by (simp add: ownerCount_def twoUsers_eq)
  moreover have "ownerCount (run (mineCalls [(testEnv ''u3'' netDown, ''u1'', bodyNoGps cellB)])
                    twoUsers) DEFAULT_START_HEX = 2"
    by (simp add: mineCalls_def ownerCount_def mine_cellB)
  moreover have "mine (testEnv ''u3'' netDown) ''u1'' (bodyNoGps DEFAULT_START_HEX) twoUsers
        = (Refused ALREADY_MINED (Fin 10) (Some True), twoUsers)"
    by (simp add: mine_def requireAuth_def twoUsers_eq bodyNoGps_def nonEmptyString_def
          DEFAULT_START_HEX_def)
  ultimately show ?thesis by (simp add: twoUsers_eq)
qed

section \<open>The fee of a drive step\<close>

text \<open>Sums of integers are exact as long as they stay within \<open>2^53\<close>.\<close>

lemma jsAdd_int:
  assumes "\<bar>a + b\<bar> \<le> 2 ^ 53"
  shows "jsAdd (Fin (of_int a)) (Fin (of_int b)) = Fin (of_int (a + b))"
  using fromReal_int [OF assms] by simp

lemma jsSub_int:
  assumes "\<bar>a - b\<bar> \<le> 2 ^ 53"
  shows "jsSub (Fin (of_int a)) (Fin (of_int b)) = Fin (of_int (a - b))"
  using fromReal_int [OF assms] by (simp add: jsSub_def)

lemma fee_value:
  assumes "N < 2 ^ 32"
  shows "jsFloor (jsMul (Fin tenth) (Fin (real N))) = Fin (of_int (int (N div 10)))"
  using fromReal_tenth [OF assms] by simp

text \<open>The successful branch of \<^verbatim>\<open>/api/drive/step\<close>, written out.\<close>

lemma driveStep_success:
  assumes "requireAuth s userId = Some user"
    and "nonEmptyString fromField = Some fromH3"
    and "nonEmptyString toField = Some toH3"
    and "fromH3 \<noteq> toH3"
    and "h3_cellToLatLng e fromH3 = Some a"
    and "h3_cellToLatLng e toH3 = Some b"
    and "path = (case h3_gridPathCells e fromH3 toH3 of None \<Rightarrow> [toH3] | Some cells \<Rightarrow> cells)"
    and "newlyMined = stepNewlyMined e user path toH3"
    and "N = length newlyMined"
    and "0 < N"
    and "fee = jsFloor (jsMul (Fin tenth) (Fin (real N)))"
    and "netDelta = jsSub (Fin (real N)) fee"
  shows "driveStep e userId fromField toField s =
           (DriveStepOk newlyMined N (Fin (real N)) fee netDelta (jsAdd (balance user) netDelta),
            saveUsers e (saveMiningEvents e
              (foldl (claimStepped e userId (uid user))
                 (collectTreasuryFee e fee
                    (updateUser userId (\<lambda>u. u\<lparr>balance := jsAdd (balance u) netDelta\<rparr>) s))
                 newlyMined)))"
  using assms by (simp add: driveStep_def Let_def)

text \<open>
  \<^bold>\<open>Claim C6\<close> (as amended). A drive step whose list of newly mined cells has \<open>N > 0\<close>
  entries (the unowned road cells of the path, or the target cell alone when the path has
  none; an array has fewer than \<open>2^32\<close> entries) computes the fee \<^verbatim>\<open>Math.floor(0.1 * N)\<close>,
  which in double arithmetic is \<open>N div 10\<close>. When the balance of the calling user and the
  treasury balance are integers that stay within \<open>2^53\<close> in absolute value after adding
  \<open>N\<close>, the balance changes by exactly \<open>N - N div 10\<close> and the treasury by exactly
  \<open>N div 10\<close>, and the response reports the same numbers.
\<close>

theorem driveStep_fee_law:
  assumes "requireAuth s userId = Some user"
    and "nonEmptyString fromField = Some fromH3"
    and "nonEmptyString toField = Some toH3"
    and "fromH3 \<noteq> toH3"
    and "h3_cellToLatLng e fromH3 = Some a"
    and "h3_cellToLatLng e toH3 = Some b"
    and "path = (case h3_gridPathCells e fromH3 toH3 of None \<Rightarrow> [toH3] | Some cells \<Rightarrow> cells)"
    and "N = length (stepNewlyMined e user path toH3)"
    and "0 < N"
    and "N < 2 ^ 32"
    and "balance user = Fin (of_int bal)"
    and "\<bar>bal\<bar> + int N \<le> 2 ^ 53"
    and "treasury s = Fin (of_int tr)"
    and "\<bar>tr\<bar> + int N \<le> 2 ^ 53"
  shows "(\<exists>user'. requireAuth (snd (driveStep e userId fromField toField s)) userId = Some user'
            \<and> balance user' = Fin (of_int (bal + (int N - int (N div 10)))))
    \<and> treasury (snd (driveStep e userId fromField toField s))
         = Fin (of_int (tr + int (N div 10)))
    \<and> jsFloor (jsMul (Fin tenth) (Fin (real N))) = Fin (of_int (int (N div 10)))
    \<and> fst (driveStep e userId fromField toField s)
         = DriveStepOk (stepNewlyMined e user path toH3) N (Fin (of_int (int N)))
             (Fin (of_int (int (N div 10))))
             (Fin (of_int (int N - int (N div 10))))
             (Fin (of_int (bal + (int N - int (N div 10)))))"
proof -
  define k where "k = int (N div 10)"
  have k0: "0 \<le> k" and kN: "k \<le> int N" by (simp_all add: k_def div_le_dividend)
  have fee: "jsFloor (jsMul (Fin tenth) (Fin (real N))) = Fin (of_int k)"
    unfolding k_def by (rule fee_value [OF assms(10)])
  have "jsSub (Fin (of_int (int N))) (Fin (of_int k)) = Fin (of_int (int N - k))"
    using k0 kN assms(12) by (intro jsSub_int) linarith
  then have net: "jsSub (Fin (real N)) (Fin (of_int k)) = Fin (of_int (int N - k))" by simp
  have new: "jsAdd (Fin (of_int bal)) (Fin (of_int (int N - k))) = Fin (of_int (bal + (int N - k)))"
    using k0 kN assms(12) by (intro jsAdd_int) linarith
  have trs: "jsAdd (Fin (of_int tr)) (Fin (of_int k)) = Fin (of_int (tr + k))"
    using k0 kN assms(14) by (intro jsAdd_int) linarith
  note run = driveStep_success [OF assms(1-7) refl assms(8,9) fee [symmetric] net [symmetric]]
  have user: "requireAuth (snd (driveStep e userId fromField toField s)) userId =
          Some (user\<lparr>balance := Fin (of_int (bal + (int N - k))),
                     ownedHexes := ownedHexes user \<union> set (stepNewlyMined e user path toH3)\<rparr>)"
    using new by (simp add: run claimStepped_loop_user requireAuth_updateUser assms(1,11))
  have tr: "treasury (snd (driveStep e userId fromField toField s)) = Fin (of_int (tr + k))"
  proof (cases "k = 0")
    case True
    then show ?thesis by (simp add: run treasury_collect assms(13))
  next
    case False
    with k0 have "\<not> (of_int k :: real) \<le> 0" by simp
    then show ?thesis using trs by (simp add: run treasury_collect assms(13))
  qed
  show ?thesis
  proof (intro conjI)
    show "\<exists>user'. requireAuth (snd (driveStep e userId fromField toField s)) userId = Some user'
            \<and> balance user' = Fin (of_int (bal + (int N - int (N div 10))))"
      using user by (simp add: k_def)
    show "treasury (snd (driveStep e userId fromField toField s))
         = Fin (of_int (tr + int (N div 10)))"
      using tr by (simp add: k_def)
    show "jsFloor (jsMul (Fin tenth) (Fin (real N))) = Fin (of_int (int (N div 10)))"
      using fee by (simp add: k_def)
    show "fst (driveStep e userId fromField toField s)
         = DriveStepOk (stepNewlyMined e user path toH3) N (Fin (of_int (int N)))
             (Fin (of_int (int (N div 10))))
             (Fin (of_int (int N - int (N div 10))))
             (Fin (of_int (bal + (int N - int (N div 10)))))"
      using new by (simp add: run assms(11) k_def)
  qed
qed

theorem driveStep_fee_law_witness:
  "requireAuth twoUsers ''u1'' =
     Some \<lparr>uid = ''u1'', email = ''ann@example.org'', passwordHash = ''$2a$10$secret1'',
            balance = Fin 10, usdtBalance = Fin 1000, ownedHexes = {DEFAULT_START_HEX}\<rparr>
   \<and> length (stepNewlyMined driveEnv
         \<lparr>uid = ''u1'', email = ''ann@example.org'', passwordHash = ''$2a$10$secret1'',
          balance = Fin 10, usdtBalance = Fin 1000, ownedHexes = {DEFAULT_START_HEX}\<rparr>
         tenCells cellB) = 10
   \<and> treasury twoUsers = Fin 0
   \<and> (\<exists>user'. requireAuth (snd (driveStep driveEnv ''u1'' (JString cellA) (JString cellB)
                                     twoUsers)) ''u1'' = Some user'
          \<and> balance user' = Fin 19)
   \<and> treasury (snd (driveStep driveEnv ''u1'' (JString cellA) (JString cellB) twoUsers)) = Fin 1"
proof -
  let ?u = "\<lparr>uid = ''u1'', email = ''ann@example.org'', passwordHash = ''$2a$10$secret1'',
            balance = Fin 10, usdtBalance = Fin 1000, ownedHexes = {DEFAULT_START_HEX}\<rparr>"
  have auth: "requireAuth twoUsers ''u1'' = Some ?u"
    by (simp add: requireAuth_def twoUsers_eq)
  have mined: "stepNewlyMined driveEnv ?u tenCells cellB = tenCells"
    by (simp add: stepNewlyMined_def collectRoadHexes_def isRoadHex_street tenCells_def
          DEFAULT_START_HEX_def)
  have len: "length tenCells = 10" by (simp add: tenCells_def)
  have from_c: "nonEmptyString (JString cellA) = Some cellA"
    and to_c: "nonEmptyString (JString cellB) = Some cellB"
    by (simp_all add: nonEmptyString_def cells_distinct)
  have ll: "h3_cellToLatLng driveEnv cellA = Some (32, 34)"
    "h3_cellToLatLng driveEnv cellB = Some (32, 34)"
    by (simp_all add: driveEnv_sel)
  have path: "tenCells = (case h3_gridPathCells driveEnv cellA cellB of
                            None \<Rightarrow> [cellB] | Some cells \<Rightarrow> cells)"
    by (simp add: driveEnv_sel)
  have n: "(10::nat) = length (stepNewlyMined driveEnv ?u tenCells cellB)"
    by (simp add: mined len)
  have pos: "(0::nat) < 10" and small: "(10::nat) < 2 ^ 32" by simp_all
  have bal: "balance ?u = Fin (of_int 10)" by simp
  have balb: "\<bar>10::int\<bar> + int 10 \<le> 2 ^ 53" by simp
  have tr: "treasury twoUsers = Fin (of_int 0)" by (simp add: twoUsers_treasury)
  have trb: "\<bar>0::int\<bar> + int 10 \<le> 2 ^ 53" by simp
  from driveStep_fee_law [OF auth from_c to_c cells_distinct(4) ll path n pos small bal balb tr trb]
  show ?thesis
    by (simp add: auth mined len twoUsers_treasury)
qed

text \<open>A balance of \<open>2^53\<close>, which a buy order on the market gives, is not changed by a drive
  step that claims one cell: the fee is 0, the net reward is 1, and \<open>2^53 + 1\<close> is rounded
  back to \<open>2^53\<close>.\<close>

lemma bigOrder_cost:
  "fromReal (bigPrice * bigAmount) = Fin (bigPrice * bigAmount)"
  "\<not> 1000 < bigPrice * bigAmount"
  "\<not> bigPrice \<le> 0" "\<not> bigAmount \<le> 0"
  "fromReal (10 + bigAmount) = Fin 9007199254740992"
proof -
  have p: "bigPrice = 2 powr of_int (- 50)"
  proof -
    have "(2::real) powr of_int (- 50) = 2 powr (- 50)" by simp
    also have "\<dots> = 1 / 2 powr 50" by (simp only: powr_minus_divide)
    also have "(2::real) powr 50 = 2 ^ 50" by (simp only: powr_numeral)
    finally show ?thesis by (simp add: bigPrice_def)
  qed
  have eq: "bigPrice * bigAmount = of_int 9007199254740982 * 2 powr of_int (- 50)"
    by (simp only: p bigAmount_def of_int_numeral mult.commute)
  have "toDouble (of_int 9007199254740982 * 2 powr of_int (- 50))
          = of_int 9007199254740982 * 2 powr of_int (- 50)"
    by (rule toDouble_dyadic) simp_all
  then have td: "toDouble (bigPrice * bigAmount) = bigPrice * bigAmount"
    by (simp only: eq)
  have small: "bigPrice * bigAmount \<le> 8" by (simp add: bigPrice_def bigAmount_def)
  have nonneg: "0 \<le> bigPrice * bigAmount" by (simp add: bigPrice_def bigAmount_def)
  show "fromReal (bigPrice * bigAmount) = Fin (bigPrice * bigAmount)"
    using small nonneg by (simp add: fromReal_def td Let_def)
  show "\<not> 1000 < bigPrice * bigAmount" using small by simp
  show "\<not> bigPrice \<le> 0" by (simp add: bigPrice_def)
  show "\<not> bigAmount \<le> 0" by (simp add: bigAmount_def)
  show "fromReal (10 + bigAmount) = Fin 9007199254740992" by (simp add: bigAmount_def)
qed

lemma richUser_users:
  "usersById richUser =
     [(''u1'', \<lparr>uid = ''u1'', email = ''ann@example.org'', passwordHash = ''$2a$10$secret1'',
               balance = Fin 9007199254740992,
               usdtBalance = jsSub (Fin 1000) (Fin (bigPrice * bigAmount)),
               ownedHexes = {DEFAULT_START_HEX}\<rparr>),
      (''u2'', \<lparr>uid = ''u2'', email = ''bob@example.org'', passwordHash = ''$2a$10$secret2'',
               balance = Fin 10, usdtBalance = Fin 1000, ownedHexes = {DEFAULT_START_HEX}\<rparr>)]"
  by (simp add: richUser_def marketOrder_def requireAuth_def twoUsers_eq bigOrder_def
        orderSide_def positiveNumber_def finiteNumber_def bigOrder_cost Let_def pushTrade_def
        users_updateUser)

lemma fetch_street_test:
  "overpassFetch (testEnv u netStreet) q =
     Inr [\<lparr>el_type = ''way'', el_tags = Some [''highway'' \<mapsto> ''residential'']\<rparr>]"
  by (simp add: overpassFetch_def overpassFetchFrom.simps maxAttempts_def testEnv_sel
        netStreet_def Let_def)

lemma isRoadHex_street_test: "isRoadHex (testEnv u netStreet) c"
  by (simp add: isRoadHex_def inferZoneTypeAtCentroid_def testEnv_sel fetch_street_test
        centroid_hasRoad anyTag_def tagHighway_def tagsOf_def truthy_def)

theorem driveStep_fee_counterexample:
  "(\<exists>u. requireAuth richUser ''u1'' = Some u \<and> balance u = Fin 9007199254740992)
   \<and> fst (driveStep (testEnv ''u3'' netStreet) ''u1'' (JString cellA) (JString cellB) richUser)
       = DriveStepOk [cellB] 1 (Fin 1) (Fin 0) (Fin 1) (Fin 9007199254740992)
   \<and> (\<exists>u. requireAuth (snd (driveStep (testEnv ''u3'' netStreet) ''u1'' (JString cellA)
                                 (JString cellB) richUser)) ''u1'' = Some u
          \<and> balance u = Fin 9007199254740992)"
proof -
  let ?e = "testEnv ''u3'' netStreet"
  let ?u = "\<lparr>uid = ''u1'', email = ''ann@example.org'', passwordHash = ''$2a$10$secret1'',
               balance = Fin 9007199254740992,
               usdtBalance = jsSub (Fin 1000) (Fin (bigPrice * bigAmount)),
               ownedHexes = {DEFAULT_START_HEX}\<rparr>"
  have auth: "requireAuth richUser ''u1'' = Some ?u"
    by (simp add: requireAuth_def richUser_users)
  have mined: "stepNewlyMined ?e ?u [cellA, cellB] cellB = [cellB]"
    by (simp add: stepNewlyMined_def collectRoadHexes_def isRoadHex_street_test cells_distinct)
  have fee: "jsFloor (jsMul (Fin tenth) (Fin (real (1::nat)))) = Fin 0"
    using fee_value [of 1] by simp
  have net: "jsSub (Fin (real (1::nat))) (Fin 0) = Fin 1" by (simp add: jsSub_def)
  have from_c: "nonEmptyString (JString cellA) = Some cellA"
    and to_c: "nonEmptyString (JString cellB) = Some cellB"
    by (simp_all add: nonEmptyString_def cells_distinct)
  have ll: "h3_cellToLatLng ?e cellA = Some (32, 34)" "h3_cellToLatLng ?e cellB = Some (32, 34)"
    by (simp_all add: testEnv_sel)
  have path: "[cellA, cellB] = (case h3_gridPathCells ?e cellA cellB of
                            None \<Rightarrow> [cellB] | Some cells \<Rightarrow> cells)"
    by (simp add: testEnv_sel)
  have n: "(1::nat) = length (stepNewlyMined ?e ?u [cellA, cellB] cellB)" by (simp add: mined)
  note run = driveStep_success [OF auth from_c to_c cells_distinct(4) ll path refl n _
               fee [symmetric] net [symmetric]]
  have new: "jsAdd (Fin 9007199254740992) (Fin 1) = Fin 9007199254740992"
    by (simp add: fromReal_tie)
  have resp: "fst (driveStep ?e ''u1'' (JString cellA) (JString cellB) richUser)
       = DriveStepOk [cellB] 1 (Fin 1) (Fin 0) (Fin 1) (Fin 9007199254740992)"
    using new by (simp add: run mined)
  have after: "requireAuth (snd (driveStep ?e ''u1'' (JString cellA) (JString cellB) richUser)) ''u1''
      = Some (?u\<lparr>balance := Fin 9007199254740992,
                   ownedHexes := ownedHexes ?u \<union> set [cellB]\<rparr>)"
    using new
    by (simp add: run mined claimStepped_user requireAuth_updateUser auth insert_commute)
  show ?thesis using auth resp after by simp
qed

end
